theory Spec2Isabelle
  imports
    Main
    "HOL-Library.Char_ord"
    "HOL-Library.List_Lexorder"
    "HOL-Library.Product_Lexorder"
    "HOL-Library.Multiset"
begin

section \<open>plotman.monitor: the live dashboard\<close>

text \<open>
  A shallow embedding of \<^verbatim>\<open>src/plotman/monitor.py\<close>: the two row classes, the two
  view-model builders, the two table builders and the two dashboard loops.

  The functions of \<^verbatim>\<open>plotman.job\<close>, \<^verbatim>\<open>plotman.reporting\<close>, \<^verbatim>\<open>plotman.plot_util\<close>
  and \<^verbatim>\<open>plotman.manager\<close> that the module calls are not part of it. They are
  parameters of the model (the record \<open>plotman\<close> below), typed by the contracts of
  section 6 of the specification, so every theorem holds for whatever these functions
  compute.
\<close>

subsection \<open>Python values and the builtins \<^verbatim>\<open>str\<close> and \<^verbatim>\<open>sorted\<close>\<close>

text \<open>
  Row attributes are dynamically typed. \<open>PyObj s\<close> stands for an object of any other
  class (a list, \<^verbatim>\<open>None\<close>, a phase), identified by the text \<open>s\<close> that its
  \<^verbatim>\<open>__str__\<close> returns.
\<close>

datatype pyval = PyStr string | PyInt int | PyBool bool | PyObj string

fun is_str :: "pyval \<Rightarrow> bool" where
  "is_str (PyStr s) = True"
| "is_str v = False"

definition digit :: "nat \<Rightarrow> char" where
  "digit n = ''0123456789'' ! (n mod 10)"

fun str_nat :: "nat \<Rightarrow> string" where
  "str_nat n = (if n < 10 then [digit n] else str_nat (n div 10) @ [digit n])"

definition str_int :: "int \<Rightarrow> string" where
  "str_int i = (if i < 0 then CHR ''-'' # str_nat (nat (- i)) else str_nat (nat i))"

text \<open>\<^verbatim>\<open>str(x)\<close>: the identity on a string, the decimal numeral of an integer.\<close>

fun str :: "pyval \<Rightarrow> pyval" where
  "str (PyStr s) = PyStr s"
| "str (PyInt i) = PyStr (str_int i)"
| "str (PyBool b) = PyStr (if b then ''True'' else ''False'')"
| "str (PyObj s) = PyStr s"

text \<open>
  \<^verbatim>\<open>sorted(xs, key=f)\<close>: ascending by key and stable. Python documents the sort as
  stable; the model is the insertion sort that places an element in front of the
  first element of the sorted tail whose key is not smaller.
\<close>

fun insort_py :: "('a \<Rightarrow> 'k::linorder) \<Rightarrow> 'a \<Rightarrow> 'a list \<Rightarrow> 'a list" where
  "insort_py key x [] = [x]"
| "insort_py key x (y # ys) =
     (if key x \<le> key y then x # y # ys else y # insort_py key x ys)"

fun sorted_py :: "('a \<Rightarrow> 'k::linorder) \<Rightarrow> 'a list \<Rightarrow> 'a list" where
  "sorted_py key [] = []"
| "sorted_py key (x # xs) = insort_py key x (sorted_py key xs)"

subsection \<open>Jobs, configuration and the collaborators\<close>

text \<open>
  What \<^verbatim>\<open>JobRow.from_job\<close>, \<^verbatim>\<open>build_jobs_data\<close> and the tmp-directory helper read
  from a \<^verbatim>\<open>plotman.job.Job\<close>: the attributes \<^verbatim>\<open>plot_id\<close>, \<^verbatim>\<open>k\<close>, \<^verbatim>\<open>tmpdir\<close>,
  \<^verbatim>\<open>dstdir\<close>, \<^verbatim>\<open>proc.pid\<close> and the results of the \<^verbatim>\<open>get_...\<close> methods and of
  \<^verbatim>\<open>progress()\<close>. A job is a snapshot: a method returns the same value each time it
  is called within one tick. The phase type \<open>'p\<close> is any linearly ordered type.
\<close>

record 'p job =
  job_plot_id :: string
  job_k :: int
  job_tmpdir :: string
  job_dstdir :: string
  get_time_wall :: int
  job_progress :: 'p
  get_tmp_usage :: int
  proc_pid :: int
  get_run_status :: string
  get_mem_usage :: int
  get_time_user :: int
  get_time_sys :: int
  get_time_iowait :: int

text \<open>\<^verbatim>\<open>cfg.directories\<close> and \<^verbatim>\<open>cfg\<close>; the scheduling configuration \<open>'sc\<close> is opaque.\<close>

record directories =
  dirs_tmp :: "string list"
  dirs_dst :: "string list"
  dirs_log :: string

record 'sc config =
  cfg_directories :: directories
  cfg_scheduling :: 'sc

text \<open>
  The functions the module calls in other modules, as parameters:
  \<^verbatim>\<open>plotman.reporting.abbr_path(path, putative_prefix)\<close>,
  \<^verbatim>\<open>plotman.plot_util.time_format(sec)\<close>, \<^verbatim>\<open>plotman.plot_util.human_format(num, precision)\<close>,
  \<^verbatim>\<open>plotman.reporting.phase_str(phase)\<close>, \<^verbatim>\<open>plotman.reporting.phases_str(phases, max_num)\<close>,
  \<^verbatim>\<open>plotman.job.job_phases_for_tmpdir(d, all_jobs)\<close>,
  \<^verbatim>\<open>plotman.manager.phases_permit_new_job(phases, d, sched_cfg, dir_cfg)\<close>
  and \<^verbatim>\<open>os.path.commonpath(paths)\<close>.
\<close>

record ('p, 'sc) plotman =
  abbr_path :: "string \<Rightarrow> string \<Rightarrow> string"
  time_format :: "int \<Rightarrow> string"
  human_format :: "int \<Rightarrow> nat \<Rightarrow> string"
  phase_str :: "'p \<Rightarrow> string"
  phases_str :: "'p list \<Rightarrow> nat \<Rightarrow> string"
  job_phases_for_tmpdir :: "string \<Rightarrow> 'p job list \<Rightarrow> 'p list"
  phases_permit_new_job :: "'p list \<Rightarrow> string \<Rightarrow> 'sc \<Rightarrow> directories \<Rightarrow> bool"
  commonpath :: "string list \<Rightarrow> string"

subsection \<open>\<^verbatim>\<open>JobRow\<close> and \<^verbatim>\<open>build_jobs_data\<close>\<close>

text \<open>
  \<^verbatim>\<open>@attr.frozen class JobRow\<close>: thirteen attributes, each declared with
  \<^verbatim>\<open>row_ib(name)\<close>, that is \<^verbatim>\<open>attr.ib(converter=str, metadata={'name': name})\<close>.
  The attribute \<^verbatim>\<open>k\<close> is the field \<open>row_k\<close>.
\<close>

record JobRow =
  plot_id :: pyval
  row_k :: pyval
  tmp_path :: pyval
  dst :: pyval
  wall :: pyval
  phase :: pyval
  tmp_usage :: pyval
  pid :: pyval
  stat :: pyval
  mem :: pyval
  user :: pyval
  sys :: pyval
  io :: pyval

text \<open>The generated \<^verbatim>\<open>__init__\<close>: every argument goes through the converter.\<close>

definition JobRow_cls ::
  "pyval \<Rightarrow> pyval \<Rightarrow> pyval \<Rightarrow> pyval \<Rightarrow> pyval \<Rightarrow> pyval \<Rightarrow> pyval \<Rightarrow> pyval \<Rightarrow> pyval \<Rightarrow>
   pyval \<Rightarrow> pyval \<Rightarrow> pyval \<Rightarrow> pyval \<Rightarrow> JobRow" where
  "JobRow_cls a1 a2 a3 a4 a5 a6 a7 a8 a9 a10 a11 a12 a13 =
     \<lparr>plot_id = str a1, row_k = str a2, tmp_path = str a3, dst = str a4, wall = str a5,
      phase = str a6, tmp_usage = str a7, pid = str a8, stat = str a9, mem = str a10,
      user = str a11, sys = str a12, io = str a13\<rparr>"

text \<open>\<^verbatim>\<open>attr.fields(JobRow)\<close> mapped to \<^verbatim>\<open>metadata['name']\<close>, and \<^verbatim>\<open>attr.astuple(row)\<close>.\<close>

definition JobRow_field_names :: "string list" where
  "JobRow_field_names =
     [''plot id'', ''k'', ''tmp'', ''dst'', ''wall'', ''phase'', ''tmp'', ''pid'', ''stat'',
      ''mem'', ''user'', ''sys'', ''io'']"

definition astuple_JobRow :: "JobRow \<Rightarrow> pyval list" where
  "astuple_JobRow r =
     [plot_id r, row_k r, tmp_path r, dst r, wall r, phase r, tmp_usage r, pid r, stat r,
      mem r, user r, sys r, io r]"

definition from_job :: "('p, 'sc) plotman \<Rightarrow> 'p job \<Rightarrow> string \<Rightarrow> string \<Rightarrow> JobRow" where
  "from_job pm j dst_prefix tmp_prefix =
     JobRow_cls
       (PyStr (take 8 (job_plot_id j)))
       (PyInt (job_k j))
       (PyStr (abbr_path pm (job_tmpdir j) tmp_prefix))
       (PyStr (abbr_path pm (job_dstdir j) dst_prefix))
       (PyStr (time_format pm (get_time_wall j)))
       (PyStr (phase_str pm (job_progress j)))
       (PyStr (human_format pm (get_tmp_usage j) 0))
       (PyInt (proc_pid j))
       (PyStr (get_run_status j))
       (PyStr (human_format pm (get_mem_usage j) 1))
       (PyStr (time_format pm (get_time_user j)))
       (PyStr (time_format pm (get_time_sys j)))
       (PyStr (time_format pm (get_time_iowait j)))"

definition build_jobs_data ::
  "('p, 'sc) plotman \<Rightarrow> 'p job list \<Rightarrow> string \<Rightarrow> string \<Rightarrow> JobRow list" where
  "build_jobs_data pm jobs dst_prefix tmp_prefix =
     (let sorted_jobs = sorted_py get_time_wall jobs
      in map (\<lambda>j. from_job pm j dst_prefix tmp_prefix) sorted_jobs)"

subsection \<open>\<^verbatim>\<open>TmpRow\<close> and \<^verbatim>\<open>build_tmp_data\<close>\<close>

record TmpRow =
  path :: pyval
  ready :: pyval
  phases :: pyval

definition TmpRow_cls :: "pyval \<Rightarrow> pyval \<Rightarrow> pyval \<Rightarrow> TmpRow" where
  "TmpRow_cls a1 a2 a3 = \<lparr>path = str a1, ready = str a2, phases = str a3\<rparr>"

definition TmpRow_field_names :: "string list" where
  "TmpRow_field_names = [''tmp'', ''ready'', ''phases'']"

definition astuple_TmpRow :: "TmpRow \<Rightarrow> pyval list" where
  "astuple_TmpRow r = [path r, ready r, phases r]"

text \<open>
  \<^verbatim>\<open>TmpRow.from_tmp(dir_cfg, jobs, sched_cfg, tmp, prefix)\<close>. The local \<^verbatim>\<open>phases\<close> is
  \<open>phs\<close> here; \<^verbatim>\<open>sorted\<close> without a key sorts by the elements themselves.
\<close>

definition from_tmp ::
  "('p::linorder, 'sc) plotman \<Rightarrow> directories \<Rightarrow> 'p job list \<Rightarrow> 'sc \<Rightarrow> string \<Rightarrow> string \<Rightarrow> TmpRow"
  where
  "from_tmp pm dir_cfg jobs sched_cfg tmp prefix =
     (let phs = sorted_py (\<lambda>p. p) (job_phases_for_tmpdir pm tmp jobs);
          tmp_suffix = abbr_path pm tmp prefix;
          rdy = phases_permit_new_job pm phs tmp_suffix sched_cfg dir_cfg
      in TmpRow_cls
           (PyStr tmp_suffix)
           (PyStr (if rdy then ''OK'' else ''--''))
           (PyStr (phases_str pm phs 5)))"

definition build_tmp_data ::
  "('p::linorder, 'sc) plotman \<Rightarrow> 'p job list \<Rightarrow> directories \<Rightarrow> 'sc \<Rightarrow> string \<Rightarrow> TmpRow list"
  where
  "build_tmp_data pm jobs dir_cfg sched_cfg prefix =
     map (\<lambda>tmp. from_tmp pm dir_cfg jobs sched_cfg tmp prefix)
       (sorted_py (\<lambda>p. p) (dirs_tmp dir_cfg))"

subsection \<open>The tables\<close>

text \<open>
  A \<^verbatim>\<open>rich.table.Table\<close>: its column headers and its rows of cells. The styling
  arguments (\<^verbatim>\<open>box=None\<close>, \<^verbatim>\<open>header_style='reverse'\<close>) are not modelled.
\<close>

record table =
  columns :: "string list"
  rows :: "pyval list list"

definition build_jobs_table :: "JobRow list \<Rightarrow> table" where
  "build_jobs_table jobs_data =
     \<lparr>columns = ''#'' # JobRow_field_names,
      rows = map (\<lambda>(index, row). str (PyInt (int index)) # astuple_JobRow row)
               (enumerate 0 jobs_data)\<rparr>"

definition build_tmp_table :: "TmpRow list \<Rightarrow> table" where
  "build_tmp_table tmp_data =
     \<lparr>columns = TmpRow_field_names, rows = map astuple_TmpRow tmp_data\<rparr>"

subsection \<open>The world outside, events and loop states\<close>

text \<open>
  An exception is a value. What a key press carries in its \<^verbatim>\<open>key\<close> attribute is a
  string or a member of \<^verbatim>\<open>prompt_toolkit.keys.Keys\<close>.
\<close>

datatype exn = Exception string

datatype key = KeyStr string | ControlC | OtherKey string

definition quit_keys :: "key set" where
  "quit_keys = {KeyStr ''q'', ControlC}"

text \<open>
  The world answers the calls whose results the module cannot determine:
  \<^item> \<open>get_running_jobs w i log cached\<close> is what
    \<^verbatim>\<open>plotman.job.Job.get_running_jobs(log, cached_jobs=cached)\<close> does in tick \<open>i\<close>:
    it raises (\<open>Inl\<close>) or returns the running jobs (\<open>Inr\<close>);
  \<^item> \<open>read_keys w i s\<close> is what \<^verbatim>\<open>prompt_toolkit_input.read_keys()\<close> returns in
    slice \<open>s\<close> of the wait of tick \<open>i\<close>;
  \<^item> \<open>app_keys w i\<close> are the keys the prompt_toolkit application receives while the
    render task of the cooperative backend is suspended in tick \<open>i\<close>.
\<close>

record 'p world =
  get_running_jobs :: "nat \<Rightarrow> string \<Rightarrow> 'p job list \<Rightarrow> exn + 'p job list"
  read_keys :: "nat \<Rightarrow> nat \<Rightarrow> key list"
  app_keys :: "nat \<Rightarrow> key list"

text \<open>
  The calls a loop makes to the terminal and to the world are recorded in order.
  \<open>Refresh\<close> is a drawing of the rich display, on \<^verbatim>\<open>live.refresh()\<close> or when the
  display is started or stopped, and \<open>Invalidate\<close> a redraw request to the
  prompt_toolkit application; both carry the screen as it is at that moment.
  \<open>Sleep\<close> and \<open>AwaitSleep\<close> carry the requested duration in milliseconds.
\<close>

datatype 's event =
    RawModeEnter | RawModeExit | LiveEnter | LiveExit
  | GetRunningJobs | Refresh 's | Invalidate 's
  | ReadKeys | Sleep nat | AwaitSleep nat

record ('p, 's) dash =
  st_jobs :: "'p job list"
  st_screen :: 's
  st_trace :: "'s event list"

definition log_event :: "'s event \<Rightarrow> ('p, 's) dash \<Rightarrow> ('p, 's) dash" where
  "log_event e st = st\<lparr>st_trace := st_trace st @ [e]\<rparr>"

text \<open>
  How a piece of the loop ends: it falls through (\<open>Next\<close>), it returns from the
  function (\<open>Return\<close>) or it raises (\<open>Raise\<close>). Each carries the state reached.
\<close>

datatype 'a outcome = Next 'a | Return 'a | Raise exn 'a

fun final_state :: "'a outcome \<Rightarrow> 'a" where
  "final_state (Next st) = st"
| "final_state (Return st) = st"
| "final_state (Raise e st) = st"

text \<open>
  \<^verbatim>\<open>with cm: body\<close>: the context is entered, and it is left when the body returns or
  raises. A body that is still running has not left it.
\<close>

definition with_stmt ::
  "'s event \<Rightarrow> 's event \<Rightarrow> (('p, 's) dash \<Rightarrow> ('p, 's) dash outcome) \<Rightarrow>
   ('p, 's) dash \<Rightarrow> ('p, 's) dash outcome" where
  "with_stmt enter exit body st =
     (case body (log_event enter st) of
        Next st' \<Rightarrow> Next st'
      | Return st' \<Rightarrow> Return (log_event exit st')
      | Raise e st' \<Rightarrow> Raise e (log_event exit st'))"

subsection \<open>The polling backend: \<^verbatim>\<open>with_rich\<close>\<close>

datatype renderable = Placeholder | Text pyval | Tbl table

text \<open>The three layouts the loop updates; the others keep their placeholder.\<close>

record rich_screen =
  header_layout :: renderable
  plots_layout :: renderable
  tmp_layout :: renderable

text \<open>Lines 69 to 94: one sampling and rendering step of tick \<open>i\<close>.\<close>

definition rich_sample_render ::
  "'p world \<Rightarrow> ('p::linorder, 'sc) plotman \<Rightarrow> 'sc config \<Rightarrow> string \<Rightarrow> string \<Rightarrow> nat \<Rightarrow>
   ('p, rich_screen) dash \<Rightarrow> ('p, rich_screen) dash outcome" where
  "rich_sample_render w pm cfg tmp_prefix dst_prefix i st =
     (let st1 = st\<lparr>st_screen := (st_screen st)\<lparr>header_layout := Text (str (PyInt (int i)))\<rparr>\<rparr>
      in case get_running_jobs w i (dirs_log (cfg_directories cfg)) (st_jobs st1) of
           Inl e \<Rightarrow> Raise e (log_event GetRunningJobs st1)
         | Inr js \<Rightarrow>
             (let st2 = (log_event GetRunningJobs st1)\<lparr>st_jobs := js\<rparr>;
                  jobs_data = build_jobs_data pm js dst_prefix tmp_prefix;
                  jobs_table = build_jobs_table jobs_data;
                  st3 = st2\<lparr>st_screen := (st_screen st2)\<lparr>plots_layout := Tbl jobs_table\<rparr>\<rparr>;
                  tmp_data = build_tmp_data pm js (cfg_directories cfg) (cfg_scheduling cfg)
                               tmp_prefix;
                  tmp_table = build_tmp_table tmp_data;
                  st4 = st3\<lparr>st_screen := (st_screen st3)\<lparr>tmp_layout := Tbl tmp_table\<rparr>\<rparr>
              in Next (log_event (Refresh (st_screen st4)) st4)))"

text \<open>
  Lines 95 to 100: \<^verbatim>\<open>for _ in range(10)\<close>, over the slices still to run.
  \<^verbatim>\<open>time.sleep(0.1)\<close> is \<open>Sleep 100\<close>.
\<close>

fun rich_wait ::
  "'p world \<Rightarrow> nat \<Rightarrow> nat list \<Rightarrow> ('p, 's) dash \<Rightarrow> ('p, 's) dash outcome" where
  "rich_wait w i [] st = Next st"
| "rich_wait w i (s # ss) st =
     (let keys = read_keys w i s;
          st1 = log_event ReadKeys st
      in if list_ex (\<lambda>k. k \<in> quit_keys) keys then Return st1
         else rich_wait w i ss (log_event (Sleep 100) st1))"

definition rich_tick ::
  "'p world \<Rightarrow> ('p::linorder, 'sc) plotman \<Rightarrow> 'sc config \<Rightarrow> string \<Rightarrow> string \<Rightarrow> nat \<Rightarrow>
   ('p, rich_screen) dash \<Rightarrow> ('p, rich_screen) dash outcome" where
  "rich_tick w pm cfg tmp_prefix dst_prefix i st =
     (case rich_sample_render w pm cfg tmp_prefix dst_prefix i st of
        Next st' \<Rightarrow> rich_wait w i [0..<10] st'
      | Return st' \<Rightarrow> Return st'
      | Raise e st' \<Rightarrow> Raise e st')"

text \<open>
  \<^verbatim>\<open>for i in itertools.count()\<close> never ends by itself. The model runs at most
  \<open>fuel\<close> ticks from tick \<open>i\<close>; \<open>Next\<close> then says that the loop is still running.
\<close>

fun rich_loop ::
  "nat \<Rightarrow> 'p world \<Rightarrow> ('p::linorder, 'sc) plotman \<Rightarrow> 'sc config \<Rightarrow> string \<Rightarrow> string \<Rightarrow> nat \<Rightarrow>
   ('p, rich_screen) dash \<Rightarrow> ('p, rich_screen) dash outcome" where
  "rich_loop 0 w pm cfg tmp_prefix dst_prefix i st = Next st"
| "rich_loop (Suc fuel) w pm cfg tmp_prefix dst_prefix i st =
     (case rich_tick w pm cfg tmp_prefix dst_prefix i st of
        Next st' \<Rightarrow> rich_loop fuel w pm cfg tmp_prefix dst_prefix (Suc i) st'
      | Return st' \<Rightarrow> Return st'
      | Raise e st' \<Rightarrow> Raise e st')"

text \<open>The layouts before the first tick, and the state in which the function starts.\<close>

definition rich_blank :: rich_screen where
  "rich_blank =
     \<lparr>header_layout = Placeholder, plots_layout = Placeholder, tmp_layout = Placeholder\<rparr>"

definition rich_init :: "('p, rich_screen) dash" where
  "rich_init = \<lparr>st_jobs = [], st_screen = rich_blank, st_trace = []\<rparr>"

text \<open>
  \<^verbatim>\<open>with rich.live.Live(overall, auto_refresh=False) as live\<close>. Entering the context
  starts the live display, which draws the layout as it is; leaving it, by a return or
  by an exception, stops the display, which draws the layout once more. Both drawings
  are made by \<^verbatim>\<open>rich\<close>, not requested by the loop; they are recorded as \<open>Refresh\<close>
  events after \<open>LiveEnter\<close> and before \<open>LiveExit\<close>.
\<close>

definition with_live ::
  "(('p, 's) dash \<Rightarrow> ('p, 's) dash outcome) \<Rightarrow> ('p, 's) dash \<Rightarrow> ('p, 's) dash outcome" where
  "with_live body st =
     (let st1 = log_event LiveEnter st;
          st2 = log_event (Refresh (st_screen st1)) st1
      in case body st2 of
           Next st' \<Rightarrow> Next st'
         | Return st' \<Rightarrow> Return (log_event LiveExit (log_event (Refresh (st_screen st')) st'))
         | Raise e st' \<Rightarrow>
             Raise e (log_event LiveExit (log_event (Refresh (st_screen st')) st')))"

text \<open>
  \<^verbatim>\<open>with_rich\<close> from a validated configuration \<open>cfg\<close> (lines 30 to 32 load it and
  are not modelled).
\<close>

definition with_rich ::
  "nat \<Rightarrow> 'p world \<Rightarrow> ('p::linorder, 'sc) plotman \<Rightarrow> 'sc config \<Rightarrow>
   ('p, rich_screen) dash outcome" where
  "with_rich fuel w pm cfg =
     (let tmp_prefix = commonpath pm (dirs_tmp (cfg_directories cfg));
          dst_prefix = commonpath pm (dirs_dst (cfg_directories cfg))
      in with_stmt RawModeEnter RawModeExit
           (with_live (rich_loop fuel w pm cfg tmp_prefix dst_prefix 0))
           rich_init)"

subsection \<open>The cooperative backend: \<^verbatim>\<open>with_prompt_toolkit\<close>\<close>

text \<open>The \<^verbatim>\<open>text\<close> of the three \<^verbatim>\<open>FormattedTextControl\<close> buffers.\<close>

record ptk_screen =
  header_buffer :: pyval
  plots_buffer :: pyval
  disks_buffer :: pyval

text \<open>
  \<^verbatim>\<open>capture_rich(*objects, console)\<close>: an \<^verbatim>\<open>ANSI\<close> object around what the console
  printed for the table.
\<close>

definition capture_rich :: "(table \<Rightarrow> string) \<Rightarrow> table \<Rightarrow> pyval" where
  "capture_rich console_print objects = PyObj (console_print objects)"

text \<open>
  Lines 155 to 181: one pass of the render task. The task is suspended in
  \<^verbatim>\<open>await anyio.sleep(1)\<close> only; the application runs meanwhile, and a bound key
  (\<^verbatim>\<open>q\<close> or \<^verbatim>\<open>c-c\<close>) makes it exit, which cancels the task group's scope and ends the
  render task inside that sleep.
\<close>

definition ptk_tick ::
  "(table \<Rightarrow> string) \<Rightarrow> 'p world \<Rightarrow> ('p::linorder, 'sc) plotman \<Rightarrow> 'sc config \<Rightarrow> string \<Rightarrow>
   string \<Rightarrow> nat \<Rightarrow> ('p, ptk_screen) dash \<Rightarrow> ('p, ptk_screen) dash outcome" where
  "ptk_tick console_print w pm cfg tmp_prefix dst_prefix i st =
     (let st1 = st\<lparr>st_screen := (st_screen st)\<lparr>header_buffer := str (PyInt (int i))\<rparr>\<rparr>
      in case get_running_jobs w i (dirs_log (cfg_directories cfg)) (st_jobs st1) of
           Inl e \<Rightarrow> Raise e (log_event GetRunningJobs st1)
         | Inr js \<Rightarrow>
             (let st2 = (log_event GetRunningJobs st1)\<lparr>st_jobs := js\<rparr>;
                  jobs_data = build_jobs_data pm js dst_prefix tmp_prefix;
                  jobs_table = build_jobs_table jobs_data;
                  st3 = st2\<lparr>st_screen := (st_screen st2)
                          \<lparr>plots_buffer := capture_rich console_print jobs_table\<rparr>\<rparr>;
                  tmp_data = build_tmp_data pm js (cfg_directories cfg) (cfg_scheduling cfg)
                               tmp_prefix;
                  tmp_table = build_tmp_table tmp_data;
                  st4 = st3\<lparr>st_screen := (st_screen st3)
                          \<lparr>disks_buffer := capture_rich console_print tmp_table\<rparr>\<rparr>;
                  st5 = log_event (Invalidate (st_screen st4)) st4;
                  st6 = log_event (AwaitSleep 1000) st5
              in if list_ex (\<lambda>k. k \<in> quit_keys) (app_keys w i) then Return st6
                 else Next st6))"

fun ptk_loop ::
  "nat \<Rightarrow> (table \<Rightarrow> string) \<Rightarrow> 'p world \<Rightarrow> ('p::linorder, 'sc) plotman \<Rightarrow> 'sc config \<Rightarrow>
   string \<Rightarrow> string \<Rightarrow> nat \<Rightarrow> ('p, ptk_screen) dash \<Rightarrow> ('p, ptk_screen) dash outcome" where
  "ptk_loop 0 console_print w pm cfg tmp_prefix dst_prefix i st = Next st"
| "ptk_loop (Suc fuel) console_print w pm cfg tmp_prefix dst_prefix i st =
     (case ptk_tick console_print w pm cfg tmp_prefix dst_prefix i st of
        Next st' \<Rightarrow> ptk_loop fuel console_print w pm cfg tmp_prefix dst_prefix (Suc i) st'
      | Return st' \<Rightarrow> Return st'
      | Raise e st' \<Rightarrow> Raise e st')"

definition ptk_init :: "('p, ptk_screen) dash" where
  "ptk_init =
     \<lparr>st_jobs = [],
      st_screen = \<lparr>header_buffer = PyStr [], plots_buffer = PyStr [],
                   disks_buffer = PyStr []\<rparr>,
      st_trace = []\<rparr>"

definition with_prompt_toolkit ::
  "nat \<Rightarrow> (table \<Rightarrow> string) \<Rightarrow> 'p world \<Rightarrow> ('p::linorder, 'sc) plotman \<Rightarrow> 'sc config \<Rightarrow>
   ('p, ptk_screen) dash outcome" where
  "with_prompt_toolkit fuel console_print w pm cfg =
     (let tmp_prefix = commonpath pm (dirs_tmp (cfg_directories cfg));
          dst_prefix = commonpath pm (dirs_dst (cfg_directories cfg))
      in ptk_loop fuel console_print w pm cfg tmp_prefix dst_prefix 0 ptk_init)"

subsection \<open>Concrete collaborators and inputs\<close>

text \<open>
  Stand-ins for the functions that are not part of the module, with phases as pairs
  \<open>(major, minor)\<close> and the number of jobs a tmp directory may hold as the scheduling
  configuration. They are used only where a theorem is applied to a concrete input.
\<close>

fun join_py :: "string \<Rightarrow> string list \<Rightarrow> string" where
  "join_py sep [] = []"
| "join_py sep [x] = x"
| "join_py sep (x # y # ys) = x @ sep @ join_py sep (y # ys)"

fun split_py :: "char \<Rightarrow> string \<Rightarrow> string list" where
  "split_py c [] = [[]]"
| "split_py c (x # xs) =
     (if x = c then [] # split_py c xs
      else (case split_py c xs of [] \<Rightarrow> [[x]] | y # ys \<Rightarrow> (x # y) # ys))"

fun common_prefix :: "'a list \<Rightarrow> 'a list \<Rightarrow> 'a list" where
  "common_prefix (x # xs) (y # ys) = (if x = y then x # common_prefix xs ys else [])"
| "common_prefix xs ys = []"

text \<open>
  Modelled from the spec: \<^verbatim>\<open>os.path.commonpath\<close> is a library function; section 4.2
  calls its result the longest common prefix across all configured directories. The
  stand-in is the POSIX one on a non-empty list of paths that are all absolute or all
  relative: the common leading components.
\<close>

definition demo_commonpath :: "string list \<Rightarrow> string" where
  "demo_commonpath paths =
     (let split_paths =
            map (\<lambda>p. filter (\<lambda>c. c \<noteq> [] \<and> c \<noteq> ''.'') (split_py CHR ''/'' p)) paths;
          common = (case split_paths of [] \<Rightarrow> [] | s1 # ss \<Rightarrow> foldl common_prefix s1 ss);
          isabs = (case paths of [] \<Rightarrow> False | p # ps \<Rightarrow> take 1 p = ''/'')
      in (if isabs then ''/'' else []) @ join_py ''/'' common)"

text \<open>
  Modelled from the spec: \<^verbatim>\<open>plotman.reporting.abbr_path\<close> is not among the sources;
  section 6 gives \<^verbatim>\<open>abbreviatePath(path, prefix) -> string\<close>, section 4.2 makes the
  result relative to the prefix. The stand-in drops the prefix from a path that starts
  with it and returns any other path as it is.
\<close>

definition demo_abbr_path :: "string \<Rightarrow> string \<Rightarrow> string" where
  "demo_abbr_path p putative_prefix =
     (if putative_prefix \<noteq> [] \<and> take (length putative_prefix) p = putative_prefix
      then drop (length putative_prefix) p else p)"

text \<open>
  Modelled from the spec: \<^verbatim>\<open>plotman.reporting.phase_str\<close> and
  \<^verbatim>\<open>plotman.reporting.phases_str\<close> are not among the sources; section 6 gives
  \<^verbatim>\<open>formatPhaseList(phases, maxCount) -> string\<close> and section 4.2 truncates to the
  count. The stand-in writes a phase as \<^verbatim>\<open>major:minor\<close> and a list as its first
  \<open>max_num\<close> phases separated by blanks.
\<close>

definition demo_phase_str :: "nat \<times> nat \<Rightarrow> string" where
  "demo_phase_str p = str_nat (fst p) @ '':'' @ str_nat (snd p)"

definition demo_phases_str :: "(nat \<times> nat) list \<Rightarrow> nat \<Rightarrow> string" where
  "demo_phases_str phs max_num = join_py '' '' (map demo_phase_str (take max_num phs))"

text \<open>
  Modelled from the spec: \<^verbatim>\<open>plotman.job.job_phases_for_tmpdir\<close> is not among the
  sources; section 4.2 collects the set of phases of all jobs whose temp directory
  equals the directory. The stand-in returns each such phase once, in the order of
  the jobs.
\<close>

definition demo_job_phases_for_tmpdir ::
  "string \<Rightarrow> (nat \<times> nat) job list \<Rightarrow> (nat \<times> nat) list" where
  "demo_job_phases_for_tmpdir d all_jobs =
     remdups (map job_progress (filter (\<lambda>j. job_tmpdir j = d) all_jobs))"

text \<open>
  Modelled from the spec: \<^verbatim>\<open>plotman.manager.phases_permit_new_job\<close> is not among the
  sources; section 6 gives \<^verbatim>\<open>permitsNewJob(phases, directory, schedulingConfig,
  directoryConfig) -> bool\<close>. The stand-in permits a new job on the tmp directory
  \<^verbatim>\<open>a\<close> while fewer jobs than the configured number run there, and on no other.
\<close>

definition demo_phases_permit_new_job ::
  "(nat \<times> nat) list \<Rightarrow> string \<Rightarrow> nat \<Rightarrow> directories \<Rightarrow> bool" where
  "demo_phases_permit_new_job phs d sched_cfg dir_cfg = (d = ''a'' \<and> length phs < sched_cfg)"

text \<open>
  Modelled from the spec: \<^verbatim>\<open>plotman.plot_util.time_format\<close> and
  \<^verbatim>\<open>plotman.plot_util.human_format\<close> are not among the sources; section 6 gives
  \<^verbatim>\<open>formatDuration(seconds) -> string\<close> and \<^verbatim>\<open>formatBytes(value, precision) -> string\<close>.
  The stand-ins write the number in decimal, the duration followed by \<^verbatim>\<open>s\<close>.
\<close>

definition demo_time_format :: "int \<Rightarrow> string" where
  "demo_time_format sec = str_int sec @ ''s''"

definition demo_human_format :: "int \<Rightarrow> nat \<Rightarrow> string" where
  "demo_human_format num precision = str_int num"

definition demo_plotman :: "(nat \<times> nat, nat) plotman" where
  "demo_plotman =
     \<lparr>abbr_path = demo_abbr_path, time_format = demo_time_format,
      human_format = demo_human_format, phase_str = demo_phase_str,
      phases_str = demo_phases_str, job_phases_for_tmpdir = demo_job_phases_for_tmpdir,
      phases_permit_new_job = demo_phases_permit_new_job, commonpath = demo_commonpath\<rparr>"

definition demo_job :: "string \<Rightarrow> string \<Rightarrow> int \<Rightarrow> nat \<times> nat \<Rightarrow> (nat \<times> nat) job" where
  "demo_job ident tmpd w ph =
     \<lparr>job_plot_id = ident, job_k = 32, job_tmpdir = tmpd, job_dstdir = ''/dst/x'',
      get_time_wall = w, job_progress = ph, get_tmp_usage = 0, proc_pid = 100,
      get_run_status = ''RUN'', get_mem_usage = 0, get_time_user = 0, get_time_sys = 0,
      get_time_iowait = 0\<rparr>"

text \<open>Three jobs: two on \<^verbatim>\<open>/a\<close>, one on \<^verbatim>\<open>/b\<close>; the first and the last have run as long.\<close>

definition demo_jobs :: "(nat \<times> nat) job list" where
  "demo_jobs =
     [demo_job ''aaaaaaaaaa'' ''/a'' 10 (1, 2),
      demo_job ''bbbbbbbbbb'' ''/a'' 5 (3, 4),
      demo_job ''cccc'' ''/b'' 10 (2, 1)]"

text \<open>Seven jobs on \<^verbatim>\<open>/a\<close> in six different phases.\<close>

definition crowded_jobs :: "(nat \<times> nat) job list" where
  "crowded_jobs =
     [demo_job ''j1'' ''/a'' 1 (3, 4), demo_job ''j2'' ''/a'' 2 (1, 2),
      demo_job ''j3'' ''/a'' 3 (1, 2), demo_job ''j4'' ''/a'' 4 (2, 1),
      demo_job ''j5'' ''/a'' 5 (4, 1), demo_job ''j6'' ''/a'' 6 (3, 1),
      demo_job ''j7'' ''/a'' 7 (1, 1)]"

definition demo_dirs :: directories where
  "demo_dirs = \<lparr>dirs_tmp = [''/b'', ''/a''], dirs_dst = [''/dst/x''], dirs_log = ''/log''\<rparr>"

definition demo_cfg :: "nat config" where
  "demo_cfg = \<lparr>cfg_directories = demo_dirs, cfg_scheduling = 3\<rparr>"

text \<open>A world where discovery always answers and \<^verbatim>\<open>q\<close> arrives in slice 3 of tick 1.\<close>

definition demo_world :: "(nat \<times> nat) world" where
  "demo_world =
     \<lparr>get_running_jobs = (\<lambda>i logdir cached. Inr demo_jobs),
      read_keys = (\<lambda>i s. if i = 1 \<and> s = 3 then [OtherKey ''x'', KeyStr ''q''] else []),
      app_keys = (\<lambda>i. if i = 1 then [ControlC] else [])\<rparr>"

text \<open>A world where discovery raises in tick 1 and no quit key is ever pressed.\<close>

definition failing_world :: "(nat \<times> nat) world" where
  "failing_world =
     \<lparr>get_running_jobs =
        (\<lambda>i logdir cached. if i = 1 then Inl (Exception ''discovery failed'') else Inr demo_jobs),
      read_keys = (\<lambda>i s. []),
      app_keys = (\<lambda>i. [])\<rparr>"

definition demo_console_print :: "table \<Rightarrow> string" where
  "demo_console_print t = join_py '' '' (columns t)"

subsection \<open>Notions used in the statements\<close>

text \<open>Whether a run has ended, and the exception it ended with.\<close>

fun finished :: "'a outcome \<Rightarrow> bool" where
  "finished (Next st) = False"
| "finished (Return st) = True"
| "finished (Raise e st) = True"

fun raised :: "'a outcome \<Rightarrow> exn option" where
  "raised (Raise e st) = Some e"
| "raised r = None"

text \<open>
  The screen of tick \<open>i\<close> when both tables come from the one job list \<open>js\<close>: the frame
  that shows the tick number, the jobs table of \<open>js\<close> and the tmp table of \<open>js\<close>.
\<close>

definition rich_frame ::
  "('p::linorder, 'sc) plotman \<Rightarrow> 'sc config \<Rightarrow> string \<Rightarrow> string \<Rightarrow> nat \<Rightarrow> 'p job list \<Rightarrow>
   rich_screen" where
  "rich_frame pm cfg tmp_prefix dst_prefix i js =
     \<lparr>header_layout = Text (str (PyInt (int i))),
      plots_layout = Tbl (build_jobs_table (build_jobs_data pm js dst_prefix tmp_prefix)),
      tmp_layout = Tbl (build_tmp_table
        (build_tmp_data pm js (cfg_directories cfg) (cfg_scheduling cfg) tmp_prefix))\<rparr>"

definition ptk_frame ::
  "(table \<Rightarrow> string) \<Rightarrow> ('p::linorder, 'sc) plotman \<Rightarrow> 'sc config \<Rightarrow> string \<Rightarrow> string \<Rightarrow>
   nat \<Rightarrow> 'p job list \<Rightarrow> ptk_screen" where
  "ptk_frame console_print pm cfg tmp_prefix dst_prefix i js =
     \<lparr>header_buffer = str (PyInt (int i)),
      plots_buffer = capture_rich console_print
        (build_jobs_table (build_jobs_data pm js dst_prefix tmp_prefix)),
      disks_buffer = capture_rich console_print (build_tmp_table
        (build_tmp_data pm js (cfg_directories cfg) (cfg_scheduling cfg) tmp_prefix))\<rparr>"

text \<open>
  The events a pass of the polling loop can record: the calls of the loop body, where
  a redraw request carries the frame of some tick whose discovery call returned.
\<close>

definition rich_loop_event ::
  "'p world \<Rightarrow> ('p::linorder, 'sc) plotman \<Rightarrow> 'sc config \<Rightarrow> string \<Rightarrow> string \<Rightarrow>
   rich_screen event \<Rightarrow> bool" where
  "rich_loop_event w pm cfg tmp_prefix dst_prefix e =
     (e = GetRunningJobs \<or> e = ReadKeys \<or> e = Sleep 100 \<or>
      (\<exists>i cached js.
         get_running_jobs w i (dirs_log (cfg_directories cfg)) cached = Inr js \<and>
         e = Refresh (rich_frame pm cfg tmp_prefix dst_prefix i js)))"

text \<open>
  The job list a run holds after \<open>n\<close> ticks: it starts empty, and each tick replaces
  it by what the discovery call returns for it.
\<close>

fun jobs_after :: "'p world \<Rightarrow> string \<Rightarrow> nat \<Rightarrow> 'p job list" where
  "jobs_after w logdir 0 = []"
| "jobs_after w logdir (Suc n) =
     (case get_running_jobs w n logdir (jobs_after w logdir n) of
        Inl e \<Rightarrow> jobs_after w logdir n
      | Inr js \<Rightarrow> js)"

text \<open>The frames drawn in a run, in order: the screens of its redraw events.\<close>

fun refreshed :: "'s event list \<Rightarrow> 's list" where
  "refreshed [] = []"
| "refreshed (Refresh fr # es) = fr # refreshed es"
| "refreshed (e # es) = refreshed es"

fun invalidated :: "'s event list \<Rightarrow> 's list" where
  "invalidated [] = []"
| "invalidated (Invalidate fr # es) = fr # invalidated es"
| "invalidated (e # es) = invalidated es"

section \<open>Properties of the sort\<close>

lemma length_insort_py: "length (insort_py key x xs) = Suc (length xs)"
  by (induction xs) simp_all

lemma length_sorted_py: "length (sorted_py key xs) = length xs"
  by (induction xs) (simp_all add: length_insort_py)

lemma mset_insort_py: "mset (insort_py key x xs) = add_mset x (mset xs)"
  by (induction xs) simp_all

lemma mset_sorted_py: "mset (sorted_py key xs) = mset xs"
  by (induction xs) (simp_all add: mset_insort_py)

lemma set_insort_py: "set (insort_py key x xs) = insert x (set xs)"
  by (induction xs) auto

lemma sorted_insort_py:
  "sorted (map key xs) \<Longrightarrow> sorted (map key (insort_py key x xs))"
  by (induction xs) (auto simp: set_insort_py)

lemma sorted_sorted_py: "sorted (map key (sorted_py key xs))"
  by (induction xs) (simp_all add: sorted_insort_py)

text \<open>
  Stability. Inserting \<open>x\<close> into a list sorted by key leaves the elements of any other
  key untouched and puts \<open>x\<close> in front of the elements of its own key.
\<close>

lemma filter_insort_py_other:
  "key x \<noteq> w \<Longrightarrow>
   filter (\<lambda>y. key y = w) (insort_py key x xs) = filter (\<lambda>y. key y = w) xs"
  by (induction xs) simp_all

lemma filter_insort_py_same:
  "sorted (map key xs) \<Longrightarrow>
   filter (\<lambda>y. key y = key x) (insort_py key x xs) = x # filter (\<lambda>y. key y = key x) xs"
proof (induction xs)
  case Nil
  show ?case by simp
next
  case (Cons y ys)
  show ?case
  proof (cases "key x \<le> key y")
    case True
    then show ?thesis by simp
  next
    case False
    then have "key y \<noteq> key x" by auto
    moreover have "sorted (map key ys)" using Cons.prems by simp
    ultimately show ?thesis using False Cons.IH by simp
  qed
qed

lemma sorted_py_stable:
  "filter (\<lambda>y. key y = w) (sorted_py key xs) = filter (\<lambda>y. key y = w) xs"
proof (induction xs)
  case Nil
  show ?case by simp
next
  case (Cons x xs)
  show ?case
  proof (cases "key x = w")
    case True
    have "filter (\<lambda>y. key y = key x) (insort_py key x (sorted_py key xs)) =
          x # filter (\<lambda>y. key y = key x) (sorted_py key xs)"
      by (rule filter_insort_py_same) (rule sorted_sorted_py)
    then show ?thesis using True Cons.IH by simp
  next
    case False
    then show ?thesis using Cons.IH by (simp add: filter_insort_py_other)
  qed
qed

section \<open>The view-model builders\<close>

lemma is_str_str: "is_str (str v)"
  by (cases v) simp_all

lemma strict_sorted_iff_distinct:
  "sorted_wrt (<) (sorted_py (\<lambda>p. p) (xs :: 'a::linorder list)) \<longleftrightarrow> distinct xs"
proof -
  have s: "sorted (sorted_py (\<lambda>p. p) xs)"
    using sorted_sorted_py [of "\<lambda>p. p" xs] by simp
  have "distinct (sorted_py (\<lambda>p. p) xs) \<longleftrightarrow> distinct xs"
    by (metis mset_sorted_py mset_eq_imp_distinct_iff)
  with s show ?thesis
    by (auto simp: strict_sorted_iff)
qed

text \<open>
  C1. For every list of running jobs, \<^verbatim>\<open>build_jobs_data\<close> returns as many rows as
  there are jobs: the rows of the jobs in non-decreasing order of their wall-clock
  time, where jobs of equal wall-clock time keep the order they have in the input.
  The jobs behind the rows are a rearrangement of the input, and for every time \<open>t\<close>
  the jobs of wall-clock time \<open>t\<close> occur in the same order before and after.
\<close>

theorem build_jobs_data_sorted_stable:
  "length (build_jobs_data pm jobs dst_prefix tmp_prefix) = length jobs
   \<and> build_jobs_data pm jobs dst_prefix tmp_prefix =
       map (\<lambda>j. from_job pm j dst_prefix tmp_prefix) (sorted_py get_time_wall jobs)
   \<and> mset (sorted_py get_time_wall jobs) = mset jobs
   \<and> sorted (map get_time_wall (sorted_py get_time_wall jobs))
   \<and> (\<forall>t. filter (\<lambda>j. get_time_wall j = t) (sorted_py get_time_wall jobs) =
            filter (\<lambda>j. get_time_wall j = t) jobs)"
  by (simp add: build_jobs_data_def length_sorted_py mset_sorted_py sorted_sorted_py
      sorted_py_stable)

theorem build_jobs_data_sorted_stable_witness:
  "length (build_jobs_data demo_plotman demo_jobs ''/dst'' ''/'') = 3
   \<and> map plot_id (build_jobs_data demo_plotman demo_jobs ''/dst'' ''/'') =
       [PyStr ''bbbbbbbb'', PyStr ''aaaaaaaa'', PyStr ''cccc'']
   \<and> map wall (build_jobs_data demo_plotman demo_jobs ''/dst'' ''/'') =
       [PyStr ''5s'', PyStr ''10s'', PyStr ''10s'']"
proof -
  have "length (build_jobs_data demo_plotman demo_jobs ''/dst'' ''/'') = length demo_jobs"
    using build_jobs_data_sorted_stable [of demo_plotman demo_jobs "''/dst''" "''/''"]
    by blast
  then have "length (build_jobs_data demo_plotman demo_jobs ''/dst'' ''/'') = 3"
    by (simp add: demo_jobs_def)
  moreover have "map plot_id (build_jobs_data demo_plotman demo_jobs ''/dst'' ''/'') =
       [PyStr ''bbbbbbbb'', PyStr ''aaaaaaaa'', PyStr ''cccc'']"
    by code_simp
  moreover have "map wall (build_jobs_data demo_plotman demo_jobs ''/dst'' ''/'') =
       [PyStr ''5s'', PyStr ''10s'', PyStr ''10s'']"
    by code_simp
  ultimately show ?thesis by blast
qed

text \<open>
  C2. For every configured list of tmp directories, \<^verbatim>\<open>build_tmp_data\<close> returns as
  many rows as there are configured directories: the row of each configured
  directory, the directories taken in ascending order of their configured path.
\<close>

theorem build_tmp_data_one_row_per_directory:
  "length (build_tmp_data pm jobs dir_cfg sched_cfg prefix) = length (dirs_tmp dir_cfg)
   \<and> build_tmp_data pm jobs dir_cfg sched_cfg prefix =
       map (\<lambda>tmp. from_tmp pm dir_cfg jobs sched_cfg tmp prefix)
         (sorted_py (\<lambda>p. p) (dirs_tmp dir_cfg))
   \<and> mset (sorted_py (\<lambda>p. p) (dirs_tmp dir_cfg)) = mset (dirs_tmp dir_cfg)
   \<and> sorted (sorted_py (\<lambda>p. p) (dirs_tmp dir_cfg))"
  using sorted_sorted_py [of "\<lambda>p. p" "dirs_tmp dir_cfg"]
  by (simp add: build_tmp_data_def length_sorted_py mset_sorted_py)

theorem build_tmp_data_one_row_per_directory_witness:
  "length (build_tmp_data demo_plotman demo_jobs demo_dirs 3 ''/'') = 2
   \<and> build_tmp_data demo_plotman demo_jobs demo_dirs 3 ''/'' =
       [\<lparr>path = PyStr ''a'', ready = PyStr ''OK'', phases = PyStr ''1:2 3:4''\<rparr>,
        \<lparr>path = PyStr ''b'', ready = PyStr ''--'', phases = PyStr ''2:1''\<rparr>]"
proof -
  have "length (build_tmp_data demo_plotman demo_jobs demo_dirs 3 ''/'') =
        length (dirs_tmp demo_dirs)"
    using build_tmp_data_one_row_per_directory [of demo_plotman demo_jobs demo_dirs 3 "''/''"]
    by blast
  then have "length (build_tmp_data demo_plotman demo_jobs demo_dirs 3 ''/'') = 2"
    by (simp add: demo_dirs_def)
  moreover have "build_tmp_data demo_plotman demo_jobs demo_dirs 3 ''/'' =
       [\<lparr>path = PyStr ''a'', ready = PyStr ''OK'', phases = PyStr ''1:2 3:4''\<rparr>,
        \<lparr>path = PyStr ''b'', ready = PyStr ''--'', phases = PyStr ''2:1''\<rparr>]"
    by code_simp
  ultimately show ?thesis by blast
qed

text \<open>
  C3. The \<^verbatim>\<open>phases\<close> field of every row made by \<^verbatim>\<open>TmpRow.from_tmp\<close> shows at most
  5 phases, in strictly ascending order. The field is the text that \<^verbatim>\<open>phases_str\<close>
  returns for the sorted phases of the directory and \<^verbatim>\<open>max_num=5\<close>. Both helpers
  are outside the module; with a \<^verbatim>\<open>job_phases_for_tmpdir\<close> that returns a set of
  phases (no phase twice) and a \<^verbatim>\<open>phases_str\<close> that writes the first \<^verbatim>\<open>max_num\<close>
  phases of its list (\<open>fmt\<close> is how it writes them), the phases written are the first
  5 of the sorted list: at most 5, strictly ascending, all of them phases of the
  directory.
\<close>

theorem from_tmp_phases_capped_ascending:
  "(\<forall>d js. distinct (job_phases_for_tmpdir pm d js)) \<Longrightarrow>
   (\<forall>phs n. phases_str pm phs n = fmt (take n phs)) \<Longrightarrow>
   phases (from_tmp pm dir_cfg jobs sched_cfg tmp prefix) =
     PyStr (fmt (take 5 (sorted_py (\<lambda>p. p) (job_phases_for_tmpdir pm tmp jobs))))
   \<and> length (take 5 (sorted_py (\<lambda>p. p) (job_phases_for_tmpdir pm tmp jobs))) \<le> 5
   \<and> sorted_wrt (<) (take 5 (sorted_py (\<lambda>p. p) (job_phases_for_tmpdir pm tmp jobs)))
   \<and> set (take 5 (sorted_py (\<lambda>p. p) (job_phases_for_tmpdir pm tmp jobs))) \<subseteq>
       set (job_phases_for_tmpdir pm tmp jobs)"
proof -
  assume d: "\<forall>d js. distinct (job_phases_for_tmpdir pm d js)"
    and f: "\<forall>phs n. phases_str pm phs n = fmt (take n phs)"
  let ?phs = "sorted_py (\<lambda>p. p) (job_phases_for_tmpdir pm tmp jobs)"
  have "phases (from_tmp pm dir_cfg jobs sched_cfg tmp prefix) = PyStr (phases_str pm ?phs 5)"
    by (simp add: from_tmp_def TmpRow_cls_def Let_def)
  then have 1: "phases (from_tmp pm dir_cfg jobs sched_cfg tmp prefix) = PyStr (fmt (take 5 ?phs))"
    using f by simp
  have "sorted_wrt (<) ?phs"
    using d by (simp add: strict_sorted_iff_distinct)
  then have 2: "sorted_wrt (<) (take 5 ?phs)"
    by (rule sorted_wrt_take)
  have "set ?phs = set (job_phases_for_tmpdir pm tmp jobs)"
    by (rule mset_eq_setD) (rule mset_sorted_py)
  then have 3: "set (take 5 ?phs) \<subseteq> set (job_phases_for_tmpdir pm tmp jobs)"
    using set_take_subset [of 5 ?phs] by simp
  show ?thesis using 1 2 3 by simp
qed

theorem from_tmp_phases_capped_ascending_witness:
  "phases (from_tmp demo_plotman demo_dirs crowded_jobs 3 ''/a'' ''/'') =
     PyStr ''1:1 1:2 2:1 3:1 3:4''
   \<and> take 5 (sorted_py (\<lambda>p. p) (job_phases_for_tmpdir demo_plotman ''/a'' crowded_jobs)) =
       [(1, 1), (1, 2), (2, 1), (3, 1), (3, 4)]
   \<and> sorted_wrt (<)
       (take 5 (sorted_py (\<lambda>p. p) (job_phases_for_tmpdir demo_plotman ''/a'' crowded_jobs)))"
proof -
  have d: "\<forall>d js. distinct (job_phases_for_tmpdir demo_plotman d js)"
    by (simp add: demo_plotman_def demo_job_phases_for_tmpdir_def)
  have f: "\<forall>phs n. phases_str demo_plotman phs n =
      (\<lambda>shown. join_py '' '' (map demo_phase_str shown)) (take n phs)"
    by (simp add: demo_plotman_def demo_phases_str_def)
  have s: "take 5 (sorted_py (\<lambda>p. p) (job_phases_for_tmpdir demo_plotman ''/a'' crowded_jobs)) =
       [(1, 1), (1, 2), (2, 1), (3, 1), (3, 4)]"
    by code_simp
  have t: "join_py '' '' (map demo_phase_str [(1, 1), (1, 2), (2, 1), (3, 1), (3, 4)]) =
       ''1:1 1:2 2:1 3:1 3:4''"
    by code_simp
  note inst = from_tmp_phases_capped_ascending
    [where pm = demo_plotman and fmt = "\<lambda>shown. join_py '' '' (map demo_phase_str shown)"
       and dir_cfg = demo_dirs and jobs = crowded_jobs and sched_cfg = 3
       and tmp = "''/a''" and prefix = "''/''", OF d f]
  have "phases (from_tmp demo_plotman demo_dirs crowded_jobs 3 ''/a'' ''/'') =
     PyStr ''1:1 1:2 2:1 3:1 3:4''"
    using inst [THEN conjunct1] unfolding s t .
  moreover have "sorted_wrt (<)
       (take 5 (sorted_py (\<lambda>p. p) (job_phases_for_tmpdir demo_plotman ''/a'' crowded_jobs)))"
    using inst [THEN conjunct2, THEN conjunct2, THEN conjunct1] .
  ultimately show ?thesis using s by blast
qed

text \<open>
  C7. For every tmp directory row, readiness is what the scheduling policy returns
  for the sorted phases of the directory, the directory argument, the scheduling
  configuration and the directory configuration, and the row shows it as one of two
  states: \<^verbatim>\<open>OK\<close> (ready) when the policy returns true, \<^verbatim>\<open>--\<close> (not ready) when it
  returns false.
\<close>

theorem from_tmp_ready_is_policy:
  "ready (from_tmp pm dir_cfg jobs sched_cfg tmp prefix) =
     PyStr (if phases_permit_new_job pm
                 (sorted_py (\<lambda>p. p) (job_phases_for_tmpdir pm tmp jobs))
                 (abbr_path pm tmp prefix) sched_cfg dir_cfg
            then ''OK'' else ''--'')
   \<and> (ready (from_tmp pm dir_cfg jobs sched_cfg tmp prefix) = PyStr ''OK'' \<longleftrightarrow>
        phases_permit_new_job pm
          (sorted_py (\<lambda>p. p) (job_phases_for_tmpdir pm tmp jobs))
          (abbr_path pm tmp prefix) sched_cfg dir_cfg)
   \<and> (ready (from_tmp pm dir_cfg jobs sched_cfg tmp prefix) = PyStr ''--'' \<longleftrightarrow>
        \<not> phases_permit_new_job pm
          (sorted_py (\<lambda>p. p) (job_phases_for_tmpdir pm tmp jobs))
          (abbr_path pm tmp prefix) sched_cfg dir_cfg)"
  by (simp add: from_tmp_def TmpRow_cls_def Let_def)

theorem from_tmp_ready_is_policy_witness:
  "ready (from_tmp demo_plotman demo_dirs demo_jobs 3 ''/a'' ''/'') = PyStr ''OK''
   \<and> demo_phases_permit_new_job [(1, 2), (3, 4)] ''a'' 3 demo_dirs
   \<and> ready (from_tmp demo_plotman demo_dirs demo_jobs 2 ''/a'' ''/'') = PyStr ''--''
   \<and> \<not> demo_phases_permit_new_job [(1, 2), (3, 4)] ''a'' 2 demo_dirs"
proof -
  have p3: "phases_permit_new_job demo_plotman
          (sorted_py (\<lambda>p. p) (job_phases_for_tmpdir demo_plotman ''/a'' demo_jobs))
          (abbr_path demo_plotman ''/a'' ''/'') 3 demo_dirs"
    by code_simp
  have p2: "\<not> phases_permit_new_job demo_plotman
          (sorted_py (\<lambda>p. p) (job_phases_for_tmpdir demo_plotman ''/a'' demo_jobs))
          (abbr_path demo_plotman ''/a'' ''/'') 2 demo_dirs"
    by code_simp
  have "ready (from_tmp demo_plotman demo_dirs demo_jobs 3 ''/a'' ''/'') = PyStr ''OK''"
    using from_tmp_ready_is_policy [of demo_plotman demo_dirs demo_jobs 3 "''/a''" "''/''"] p3
    by blast
  moreover
  have "ready (from_tmp demo_plotman demo_dirs demo_jobs 2 ''/a'' ''/'') = PyStr ''--''"
    using from_tmp_ready_is_policy [of demo_plotman demo_dirs demo_jobs 2 "''/a''" "''/''"] p2
    by blast
  moreover have "demo_phases_permit_new_job [(1, 2), (3, 4)] ''a'' 3 demo_dirs"
    by code_simp
  moreover have "\<not> demo_phases_permit_new_job [(1, 2), (3, 4)] ''a'' 2 demo_dirs"
    by code_simp
  ultimately show ?thesis by blast
qed

text \<open>
  C10. Every field of a constructed \<^verbatim>\<open>JobRow\<close> and \<^verbatim>\<open>TmpRow\<close> is a string, whatever
  is passed to the constructor, since each attribute is converted by \<^verbatim>\<open>str\<close>; so
  is every field of every row the two builders return. \<^verbatim>\<open>TmpRow.phases\<close> is the
  string that \<^verbatim>\<open>phases_str\<close> returns, not a list of phases, and \<^verbatim>\<open>TmpRow.ready\<close> is
  one of the strings \<^verbatim>\<open>OK\<close> and \<^verbatim>\<open>--\<close>, not a boolean.
\<close>

theorem rows_hold_strings:
  "list_all is_str (astuple_JobRow (JobRow_cls a1 a2 a3 a4 a5 a6 a7 a8 a9 a10 a11 a12 a13))
   \<and> list_all is_str (astuple_TmpRow (TmpRow_cls b1 b2 b3))
   \<and> list_all (\<lambda>r. list_all is_str (astuple_JobRow r))
       (build_jobs_data pm jobs dst_prefix tmp_prefix)
   \<and> list_all (\<lambda>r. list_all is_str (astuple_TmpRow r))
       (build_tmp_data pm jobs dir_cfg sched_cfg prefix)
   \<and> phases (from_tmp pm dir_cfg jobs sched_cfg tmp prefix) =
       PyStr (phases_str pm (sorted_py (\<lambda>p. p) (job_phases_for_tmpdir pm tmp jobs)) 5)
   \<and> (ready (from_tmp pm dir_cfg jobs sched_cfg tmp prefix) = PyStr ''OK''
        \<or> ready (from_tmp pm dir_cfg jobs sched_cfg tmp prefix) = PyStr ''--'')"
proof -
  have j: "list_all is_str (astuple_JobRow (JobRow_cls a1 a2 a3 a4 a5 a6 a7 a8 a9 a10 a11 a12 a13))"
    by (simp add: astuple_JobRow_def JobRow_cls_def is_str_str)
  have t: "list_all is_str (astuple_TmpRow (TmpRow_cls b1 b2 b3))"
    by (simp add: astuple_TmpRow_def TmpRow_cls_def is_str_str)
  have "list_all (\<lambda>r. list_all is_str (astuple_JobRow r))
       (build_jobs_data pm jobs dst_prefix tmp_prefix)"
    by (simp add: build_jobs_data_def list_all_iff from_job_def astuple_JobRow_def
        JobRow_cls_def is_str_str)
  moreover have "list_all (\<lambda>r. list_all is_str (astuple_TmpRow r))
       (build_tmp_data pm jobs dir_cfg sched_cfg prefix)"
    by (simp add: build_tmp_data_def list_all_iff from_tmp_def Let_def astuple_TmpRow_def
        TmpRow_cls_def)
  moreover have "phases (from_tmp pm dir_cfg jobs sched_cfg tmp prefix) =
       PyStr (phases_str pm (sorted_py (\<lambda>p. p) (job_phases_for_tmpdir pm tmp jobs)) 5)"
    by (simp add: from_tmp_def TmpRow_cls_def Let_def)
  moreover have "ready (from_tmp pm dir_cfg jobs sched_cfg tmp prefix) = PyStr ''OK''
        \<or> ready (from_tmp pm dir_cfg jobs sched_cfg tmp prefix) = PyStr ''--''"
    by (simp add: from_tmp_def TmpRow_cls_def Let_def)
  ultimately show ?thesis using j t by blast
qed

theorem rows_hold_strings_witness:
  "astuple_JobRow (JobRow_cls (PyInt 32) (PyBool True) (PyObj ''None'') (PyStr ''x'')
      (PyInt (- 7)) (PyInt 0) (PyInt 1) (PyInt 2) (PyInt 3) (PyInt 4) (PyInt 5) (PyInt 6)
      (PyInt 1203)) =
     map PyStr [''32'', ''True'', ''None'', ''x'', ''-7'', ''0'', ''1'', ''2'', ''3'', ''4'', ''5'',
       ''6'', ''1203'']
   \<and> list_all is_str (astuple_JobRow (JobRow_cls (PyInt 32) (PyBool True) (PyObj ''None'')
      (PyStr ''x'') (PyInt (- 7)) (PyInt 0) (PyInt 1) (PyInt 2) (PyInt 3) (PyInt 4) (PyInt 5)
      (PyInt 6) (PyInt 1203)))"
proof -
  have "astuple_JobRow (JobRow_cls (PyInt 32) (PyBool True) (PyObj ''None'') (PyStr ''x'')
      (PyInt (- 7)) (PyInt 0) (PyInt 1) (PyInt 2) (PyInt 3) (PyInt 4) (PyInt 5) (PyInt 6)
      (PyInt 1203)) =
     map PyStr [''32'', ''True'', ''None'', ''x'', ''-7'', ''0'', ''1'', ''2'', ''3'', ''4'', ''5'',
       ''6'', ''1203'']"
    by code_simp
  then show ?thesis
    using rows_hold_strings [of "PyInt 32" "PyBool True" "PyObj ''None''" "PyStr ''x''"
        "PyInt (- 7)" "PyInt 0" "PyInt 1" "PyInt 2" "PyInt 3" "PyInt 4" "PyInt 5" "PyInt 6"
        "PyInt 1203", THEN conjunct1]
    by simp
qed

section \<open>The wait of the polling backend\<close>

lemma log_event_trace [simp]: "st_trace (log_event e st) = st_trace st @ [e]"
  by (simp add: log_event_def)

lemma log_event_jobs [simp]: "st_jobs (log_event e st) = st_jobs st"
  by (simp add: log_event_def)

lemma log_event_screen [simp]: "st_screen (log_event e st) = st_screen st"
  by (simp add: log_event_def)

lemma rich_wait_no_quit:
  "list_all (\<lambda>s. \<not> list_ex (\<lambda>k. k \<in> quit_keys) (read_keys w i s)) ss \<Longrightarrow>
   rich_wait w i ss st =
     Next (st\<lparr>st_trace := st_trace st @ concat (replicate (length ss) [ReadKeys, Sleep 100])\<rparr>)"
proof (induction ss arbitrary: st)
  case Nil
  show ?case by simp
next
  case (Cons s ss)
  then have "rich_wait w i (s # ss) st =
      rich_wait w i ss (log_event (Sleep 100) (log_event ReadKeys st))"
    by (simp add: Let_def)
  also have "\<dots> = Next ((log_event (Sleep 100) (log_event ReadKeys st))
      \<lparr>st_trace := st_trace (log_event (Sleep 100) (log_event ReadKeys st)) @
         concat (replicate (length ss) [ReadKeys, Sleep 100])\<rparr>)"
    using Cons by simp
  finally show ?case by (simp add: log_event_def)
qed

lemma rich_wait_quit:
  "list_all (\<lambda>s. \<not> list_ex (\<lambda>k. k \<in> quit_keys) (read_keys w i s)) pre \<Longrightarrow>
   list_ex (\<lambda>k. k \<in> quit_keys) (read_keys w i s) \<Longrightarrow>
   rich_wait w i (pre @ s # post) st =
     Return (st\<lparr>st_trace := st_trace st @ concat (replicate (length pre) [ReadKeys, Sleep 100])
       @ [ReadKeys]\<rparr>)"
proof (induction pre arbitrary: st)
  case Nil
  then show ?case by (simp add: Let_def log_event_def)
next
  case (Cons p pre)
  then have "rich_wait w i ((p # pre) @ s # post) st =
      rich_wait w i (pre @ s # post) (log_event (Sleep 100) (log_event ReadKeys st))"
    by (simp add: Let_def)
  also have "\<dots> = Return ((log_event (Sleep 100) (log_event ReadKeys st))
      \<lparr>st_trace := st_trace (log_event (Sleep 100) (log_event ReadKeys st)) @
         concat (replicate (length pre) [ReadKeys, Sleep 100]) @ [ReadKeys]\<rparr>)"
    using Cons by simp
  finally show ?case by (simp add: log_event_def)
qed

lemma range_split: "s < n \<Longrightarrow> [0..<n] = [0..<s] @ s # [Suc s..<n]"
  by (metis less_imp_le_nat upt_add_eq_append upt_conv_Cons le0 le_add_diff_inverse)

lemma rich_wait_state:
  "raised (rich_wait w i ss st) = None
   \<and> st_jobs (final_state (rich_wait w i ss st)) = st_jobs st
   \<and> st_screen (final_state (rich_wait w i ss st)) = st_screen st"
  by (induction ss arbitrary: st) (simp_all add: Let_def)

lemma rich_wait_finished_cong:
  "finished (rich_wait w i ss st) = finished (rich_wait w i ss st')"
  by (induction ss arbitrary: st st') (simp_all add: Let_def)

section \<open>One pass of a loop\<close>

lemma rich_sample_render_ok:
  "get_running_jobs w i (dirs_log (cfg_directories cfg)) (st_jobs st) = Inr js \<Longrightarrow>
   rich_sample_render w pm cfg tmp_prefix dst_prefix i st =
     Next \<lparr>st_jobs = js,
           st_screen = rich_frame pm cfg tmp_prefix dst_prefix i js,
           st_trace = st_trace st @
             [GetRunningJobs, Refresh (rich_frame pm cfg tmp_prefix dst_prefix i js)]\<rparr>"
  by (simp add: rich_sample_render_def Let_def log_event_def rich_frame_def)

lemma rich_sample_render_err:
  "get_running_jobs w i (dirs_log (cfg_directories cfg)) (st_jobs st) = Inl e \<Longrightarrow>
   rich_sample_render w pm cfg tmp_prefix dst_prefix i st =
     Raise e (st\<lparr>st_screen := (st_screen st)\<lparr>header_layout := Text (str (PyInt (int i)))\<rparr>,
                  st_trace := st_trace st @ [GetRunningJobs]\<rparr>)"
  by (simp add: rich_sample_render_def Let_def log_event_def)

lemma ptk_tick_ok:
  "get_running_jobs w i (dirs_log (cfg_directories cfg)) (st_jobs st) = Inr js \<Longrightarrow>
   ptk_tick console_print w pm cfg tmp_prefix dst_prefix i st =
     (if list_ex (\<lambda>k. k \<in> quit_keys) (app_keys w i) then Return else Next)
       \<lparr>st_jobs = js,
        st_screen = ptk_frame console_print pm cfg tmp_prefix dst_prefix i js,
        st_trace = st_trace st @
          [GetRunningJobs,
           Invalidate (ptk_frame console_print pm cfg tmp_prefix dst_prefix i js),
           AwaitSleep 1000]\<rparr>"
  by (simp add: ptk_tick_def Let_def log_event_def ptk_frame_def)

lemma ptk_tick_err:
  "get_running_jobs w i (dirs_log (cfg_directories cfg)) (st_jobs st) = Inl e \<Longrightarrow>
   ptk_tick console_print w pm cfg tmp_prefix dst_prefix i st =
     Raise e (st\<lparr>st_screen := (st_screen st)\<lparr>header_buffer := str (PyInt (int i))\<rparr>,
                  st_trace := st_trace st @ [GetRunningJobs]\<rparr>)"
  by (simp add: ptk_tick_def Let_def log_event_def)

section \<open>The events of a run\<close>

lemma rich_wait_events:
  "\<exists>evs. st_trace (final_state (rich_wait w i ss st)) = st_trace st @ evs \<and>
         list_all (\<lambda>e. e = ReadKeys \<or> e = Sleep 100) evs"
proof (induction ss arbitrary: st)
  case Nil
  show ?case by simp
next
  case (Cons s ss)
  show ?case
  proof (cases "list_ex (\<lambda>k. k \<in> quit_keys) (read_keys w i s)")
    case True
    then have "st_trace (final_state (rich_wait w i (s # ss) st)) = st_trace st @ [ReadKeys]"
      by (simp add: Let_def)
    then show ?thesis by simp
  next
    case False
    obtain evs where
      e: "st_trace (final_state
            (rich_wait w i ss (log_event (Sleep 100) (log_event ReadKeys st)))) =
          st_trace (log_event (Sleep 100) (log_event ReadKeys st)) @ evs"
      and a: "list_all (\<lambda>e. e = ReadKeys \<or> e = Sleep 100) evs"
      using Cons.IH by blast
    from False e have "st_trace (final_state (rich_wait w i (s # ss) st)) =
        st_trace st @ (ReadKeys # Sleep 100 # evs)"
      by (simp add: Let_def)
    moreover have "list_all (\<lambda>e. e = ReadKeys \<or> e = Sleep 100) (ReadKeys # Sleep 100 # evs)"
      using a by simp
    ultimately show ?thesis by blast
  qed
qed

lemma rich_tick_events:
  "\<exists>evs. st_trace (final_state (rich_tick w pm cfg tmp_prefix dst_prefix i st)) =
           st_trace st @ evs \<and>
         list_all (rich_loop_event w pm cfg tmp_prefix dst_prefix) evs"
proof (cases "get_running_jobs w i (dirs_log (cfg_directories cfg)) (st_jobs st)")
  case (Inl e)
  have "st_trace (final_state (rich_tick w pm cfg tmp_prefix dst_prefix i st)) =
        st_trace st @ [GetRunningJobs]"
    by (simp add: rich_tick_def rich_sample_render_err [OF Inl])
  moreover have "list_all (rich_loop_event w pm cfg tmp_prefix dst_prefix) [GetRunningJobs]"
    by (simp add: rich_loop_event_def)
  ultimately show ?thesis by blast
next
  case (Inr js)
  let ?fr = "rich_frame pm cfg tmp_prefix dst_prefix i js"
  let ?st1 = "\<lparr>st_jobs = js, st_screen = ?fr,
               st_trace = st_trace st @ [GetRunningJobs, Refresh ?fr]\<rparr>"
  obtain evs where
    e: "st_trace (final_state (rich_wait w i [0..<10] ?st1)) = st_trace ?st1 @ evs"
    and a: "list_all (\<lambda>e. e = ReadKeys \<or> e = Sleep 100) evs"
    using rich_wait_events [of w i "[0..<10]" ?st1] by blast
  have "st_trace (final_state (rich_tick w pm cfg tmp_prefix dst_prefix i st)) =
        st_trace st @ (GetRunningJobs # Refresh ?fr # evs)"
    using e by (simp add: rich_tick_def rich_sample_render_ok [OF Inr])
  moreover have "rich_loop_event w pm cfg tmp_prefix dst_prefix (Refresh ?fr)"
    using Inr by (auto simp: rich_loop_event_def)
  moreover have "list_all (rich_loop_event w pm cfg tmp_prefix dst_prefix) evs"
    using a by (auto simp: list_all_iff rich_loop_event_def)
  ultimately have "st_trace (final_state (rich_tick w pm cfg tmp_prefix dst_prefix i st)) =
        st_trace st @ (GetRunningJobs # Refresh ?fr # evs) \<and>
      list_all (rich_loop_event w pm cfg tmp_prefix dst_prefix)
        (GetRunningJobs # Refresh ?fr # evs)"
    by (simp add: rich_loop_event_def)
  then show ?thesis by blast
qed

lemma rich_loop_events:
  "\<exists>evs. st_trace (final_state (rich_loop fuel w pm cfg tmp_prefix dst_prefix i st)) =
           st_trace st @ evs \<and>
         list_all (rich_loop_event w pm cfg tmp_prefix dst_prefix) evs"
proof (induction fuel arbitrary: i st)
  case 0
  show ?case by simp
next
  case (Suc fuel)
  obtain evs where
    e: "st_trace (final_state (rich_tick w pm cfg tmp_prefix dst_prefix i st)) =
        st_trace st @ evs"
    and a: "list_all (rich_loop_event w pm cfg tmp_prefix dst_prefix) evs"
    using rich_tick_events by blast
  show ?case
  proof (cases "rich_tick w pm cfg tmp_prefix dst_prefix i st")
    case (Next st')
    obtain evs' where
      e': "st_trace (final_state (rich_loop fuel w pm cfg tmp_prefix dst_prefix (Suc i) st')) =
           st_trace st' @ evs'"
      and a': "list_all (rich_loop_event w pm cfg tmp_prefix dst_prefix) evs'"
      using Suc.IH by blast
    from Next e have "st_trace st' = st_trace st @ evs" by simp
    with Next e' have
      "st_trace (final_state (rich_loop (Suc fuel) w pm cfg tmp_prefix dst_prefix i st)) =
       st_trace st @ (evs @ evs')"
      by simp
    moreover have "list_all (rich_loop_event w pm cfg tmp_prefix dst_prefix) (evs @ evs')"
      using a a' by simp
    ultimately show ?thesis by blast
  next
    case (Return st')
    with e a show ?thesis by auto
  next
    case (Raise x st')
    with e a show ?thesis by auto
  qed
qed

lemma with_stmt_trace:
  "st_trace (final_state (body (log_event enter st))) = st_trace (log_event enter st) @ evs \<Longrightarrow>
   st_trace (final_state (with_stmt enter exit body st)) =
     st_trace st @ enter # evs @ (if finished (body (log_event enter st)) then [exit] else [])"
  by (cases "body (log_event enter st)") (simp_all add: with_stmt_def)

lemma with_stmt_finished:
  "finished (with_stmt enter exit body st) = finished (body (log_event enter st))"
  by (cases "body (log_event enter st)") (simp_all add: with_stmt_def)

lemma with_stmt_raised:
  "raised (with_stmt enter exit body st) = raised (body (log_event enter st))"
  by (cases "body (log_event enter st)") (simp_all add: with_stmt_def)

lemma with_stmt_screen:
  "st_screen (final_state (with_stmt enter exit body st)) =
   st_screen (final_state (body (log_event enter st)))"
  by (cases "body (log_event enter st)") (simp_all add: with_stmt_def)

lemma with_live_trace:
  "st_trace (final_state
     (body (log_event (Refresh (st_screen st)) (log_event LiveEnter st)))) =
     st_trace (log_event (Refresh (st_screen st)) (log_event LiveEnter st)) @ evs \<Longrightarrow>
   st_trace (final_state (with_live body st)) =
     st_trace st @ LiveEnter # Refresh (st_screen st) # evs @
       (if finished (body (log_event (Refresh (st_screen st)) (log_event LiveEnter st)))
        then [Refresh (st_screen (final_state
                (body (log_event (Refresh (st_screen st)) (log_event LiveEnter st))))),
              LiveExit]
        else [])"
  by (cases "body (log_event (Refresh (st_screen st)) (log_event LiveEnter st))")
    (simp_all add: with_live_def Let_def)

lemma with_live_finished:
  "finished (with_live body st) =
   finished (body (log_event (Refresh (st_screen st)) (log_event LiveEnter st)))"
  by (cases "body (log_event (Refresh (st_screen st)) (log_event LiveEnter st))")
    (simp_all add: with_live_def Let_def)

lemma with_live_raised:
  "raised (with_live body st) =
   raised (body (log_event (Refresh (st_screen st)) (log_event LiveEnter st)))"
  by (cases "body (log_event (Refresh (st_screen st)) (log_event LiveEnter st))")
    (simp_all add: with_live_def Let_def)

lemma with_live_screen:
  "st_screen (final_state (with_live body st)) =
   st_screen (final_state
     (body (log_event (Refresh (st_screen st)) (log_event LiveEnter st))))"
  by (cases "body (log_event (Refresh (st_screen st)) (log_event LiveEnter st))")
    (simp_all add: with_live_def Let_def)

lemma rich_init_sel [simp]:
  "st_screen rich_init = rich_blank" "st_jobs rich_init = []" "st_trace rich_init = []"
  by (simp_all add: rich_init_def)

text \<open>The state in which \<^verbatim>\<open>with_rich\<close> starts its loop.\<close>

lemma with_rich_finished:
  "finished (with_rich fuel w pm cfg) =
   finished (rich_loop fuel w pm cfg
     (commonpath pm (dirs_tmp (cfg_directories cfg)))
     (commonpath pm (dirs_dst (cfg_directories cfg))) 0
     (log_event (Refresh rich_blank)
        (log_event LiveEnter (log_event RawModeEnter rich_init))))"
  by (simp add: with_rich_def with_stmt_finished with_live_finished rich_init_def)

lemma with_rich_raised:
  "raised (with_rich fuel w pm cfg) =
   raised (rich_loop fuel w pm cfg
     (commonpath pm (dirs_tmp (cfg_directories cfg)))
     (commonpath pm (dirs_dst (cfg_directories cfg))) 0
     (log_event (Refresh rich_blank)
        (log_event LiveEnter (log_event RawModeEnter rich_init))))"
  by (simp add: with_rich_def with_stmt_raised with_live_raised rich_init_def)

lemma with_rich_screen:
  "st_screen (final_state (with_rich fuel w pm cfg)) =
   st_screen (final_state (rich_loop fuel w pm cfg
     (commonpath pm (dirs_tmp (cfg_directories cfg)))
     (commonpath pm (dirs_dst (cfg_directories cfg))) 0
     (log_event (Refresh rich_blank)
        (log_event LiveEnter (log_event RawModeEnter rich_init)))))"
  by (simp add: with_rich_def with_stmt_screen with_live_screen rich_init_def)

lemma with_rich_trace:
  "\<exists>evs. list_all (rich_loop_event w pm cfg
              (commonpath pm (dirs_tmp (cfg_directories cfg)))
              (commonpath pm (dirs_dst (cfg_directories cfg)))) evs \<and>
         st_trace (final_state
           (rich_loop fuel w pm cfg
              (commonpath pm (dirs_tmp (cfg_directories cfg)))
              (commonpath pm (dirs_dst (cfg_directories cfg))) 0
              (log_event (Refresh rich_blank)
                 (log_event LiveEnter (log_event RawModeEnter rich_init))))) =
           [RawModeEnter, LiveEnter, Refresh rich_blank] @ evs \<and>
         st_trace (final_state (with_rich fuel w pm cfg)) =
           RawModeEnter # LiveEnter # Refresh rich_blank # evs @
             (if finished (with_rich fuel w pm cfg)
              then [Refresh (st_screen (final_state (with_rich fuel w pm cfg))),
                    LiveExit, RawModeExit]
              else [])"
proof -
  let ?tp = "commonpath pm (dirs_tmp (cfg_directories cfg))"
  let ?dp = "commonpath pm (dirs_dst (cfg_directories cfg))"
  let ?loop = "rich_loop fuel w pm cfg ?tp ?dp 0"
  let ?inner = "with_live ?loop"
  let ?st1 = "log_event RawModeEnter (rich_init :: ('a, rich_screen) dash)"
  let ?st2 = "log_event (Refresh rich_blank) (log_event LiveEnter ?st1)"
  have sc: "st_screen ?st1 = rich_blank"
    by (simp add: rich_init_def)
  obtain evs where
    e: "st_trace (final_state (?loop ?st2)) = st_trace ?st2 @ evs"
    and a: "list_all (rich_loop_event w pm cfg ?tp ?dp) evs"
    using rich_loop_events by blast
  have i: "st_trace (final_state (?inner ?st1)) =
      st_trace ?st1 @ LiveEnter # Refresh rich_blank # evs @
        (if finished (?loop ?st2)
         then [Refresh (st_screen (final_state (?loop ?st2))), LiveExit] else [])"
    by (rule with_live_trace [where body = "?loop" and st = "?st1", unfolded sc, OF e])
  then have i': "st_trace (final_state (?inner ?st1)) =
      st_trace ?st1 @ (LiveEnter # Refresh rich_blank # evs @
        (if finished (?loop ?st2)
         then [Refresh (st_screen (final_state (?loop ?st2))), LiveExit] else []))"
    by simp
  have o: "st_trace (final_state (with_stmt RawModeEnter RawModeExit ?inner rich_init)) =
      st_trace (rich_init :: ('a, rich_screen) dash) @ RawModeEnter #
        (LiveEnter # Refresh rich_blank # evs @
          (if finished (?loop ?st2)
           then [Refresh (st_screen (final_state (?loop ?st2))), LiveExit] else [])) @
        (if finished (?inner ?st1) then [RawModeExit] else [])"
    by (rule with_stmt_trace
        [where body = "?inner" and enter = RawModeEnter and exit = RawModeExit
           and st = rich_init, OF i'])
  have f: "finished (with_rich fuel w pm cfg) = finished (?loop ?st2)"
    using with_rich_finished [of fuel w pm cfg] by simp
  have s: "st_screen (final_state (with_rich fuel w pm cfg)) =
      st_screen (final_state (?loop ?st2))"
    using with_rich_screen [of fuel w pm cfg] by simp
  have t0: "st_trace (rich_init :: ('a, rich_screen) dash) = []"
    by (simp add: rich_init_def)
  have "st_trace (final_state (with_rich fuel w pm cfg)) =
      RawModeEnter # LiveEnter # Refresh rich_blank # evs @
        (if finished (with_rich fuel w pm cfg)
         then [Refresh (st_screen (final_state (with_rich fuel w pm cfg))),
               LiveExit, RawModeExit]
         else [])"
    using o unfolding f s t0
    by (simp add: with_rich_def with_live_finished sc)
  moreover have "st_trace (final_state (?loop ?st2)) =
      [RawModeEnter, LiveEnter, Refresh rich_blank] @ evs"
    using e t0 by simp
  ultimately show ?thesis using a by blast
qed

lemma rich_loop_event_not_raw:
  "list_all (rich_loop_event w pm cfg tp dp) evs \<Longrightarrow>
   count_list evs RawModeEnter = 0 \<and> count_list evs RawModeExit = 0"
  by (auto simp: list_all_iff rich_loop_event_def count_list_0_iff)

lemma count_list_app: "count_list (xs @ ys) a = count_list xs a + count_list ys a"
  by (induction xs) simp_all

text \<open>
  C8. In the polling backend raw mode is entered exactly once, as the first thing the
  run does, and it is left exactly once on every way out of the loop, by the quit
  return and by an exception alike, as the last thing the run does; while the loop
  is running it has not been left.
\<close>

theorem raw_mode_acquired_and_released_once:
  "count_list (st_trace (final_state (with_rich fuel w pm cfg))) RawModeEnter = 1
   \<and> hd (st_trace (final_state (with_rich fuel w pm cfg))) = RawModeEnter
   \<and> count_list (st_trace (final_state (with_rich fuel w pm cfg))) RawModeExit =
       (if finished (with_rich fuel w pm cfg) then 1 else 0)
   \<and> (finished (with_rich fuel w pm cfg) \<longrightarrow>
        last (st_trace (final_state (with_rich fuel w pm cfg))) = RawModeExit)"
proof -
  obtain evs where
    a: "list_all (rich_loop_event w pm cfg
              (commonpath pm (dirs_tmp (cfg_directories cfg)))
              (commonpath pm (dirs_dst (cfg_directories cfg)))) evs"
    and t: "st_trace (final_state (with_rich fuel w pm cfg)) =
           RawModeEnter # LiveEnter # Refresh rich_blank # evs @
             (if finished (with_rich fuel w pm cfg)
              then [Refresh (st_screen (final_state (with_rich fuel w pm cfg))),
                    LiveExit, RawModeExit]
              else [])"
    using with_rich_trace [of w pm cfg fuel] by blast
  from rich_loop_event_not_raw [OF a]
  have c: "count_list evs RawModeEnter = 0" "count_list evs RawModeExit = 0"
    by simp_all
  show ?thesis
    unfolding t using c by (simp add: count_list_app)
qed

theorem raw_mode_acquired_and_released_once_witness:
  "raised (with_rich 5 demo_world demo_plotman demo_cfg) = None
   \<and> count_list (st_trace (final_state (with_rich 5 demo_world demo_plotman demo_cfg)))
       RawModeExit = 1
   \<and> last (st_trace (final_state (with_rich 5 demo_world demo_plotman demo_cfg))) = RawModeExit
   \<and> raised (with_rich 5 failing_world demo_plotman demo_cfg) =
       Some (Exception ''discovery failed'')
   \<and> count_list (st_trace (final_state (with_rich 5 failing_world demo_plotman demo_cfg)))
       RawModeExit = 1
   \<and> last (st_trace (final_state (with_rich 5 failing_world demo_plotman demo_cfg))) =
       RawModeExit"
proof -
  have f1: "finished (with_rich 5 demo_world demo_plotman demo_cfg)"
    by code_simp
  have r1: "raised (with_rich 5 demo_world demo_plotman demo_cfg) = None"
    by code_simp
  have f2: "finished (with_rich 5 failing_world demo_plotman demo_cfg)"
    by code_simp
  have r2: "raised (with_rich 5 failing_world demo_plotman demo_cfg) =
       Some (Exception ''discovery failed'')"
    by code_simp
  show ?thesis
    using raw_mode_acquired_and_released_once [of 5 demo_world demo_plotman demo_cfg]
      raw_mode_acquired_and_released_once [of 5 failing_world demo_plotman demo_cfg]
      f1 r1 f2 r2
    by simp
qed

section \<open>A discovery error\<close>

text \<open>
  Whether and how a pass ends depends on the job list it starts with and on the
  world, not on the screen or on what has been recorded so far.
\<close>

lemma rich_tick_cong:
  "st_jobs st = st_jobs st' \<Longrightarrow>
   raised (rich_tick w pm cfg tp dp i st) = raised (rich_tick w pm cfg tp dp i st')
   \<and> finished (rich_tick w pm cfg tp dp i st) = finished (rich_tick w pm cfg tp dp i st')
   \<and> st_jobs (final_state (rich_tick w pm cfg tp dp i st)) =
       st_jobs (final_state (rich_tick w pm cfg tp dp i st'))"
proof (cases "get_running_jobs w i (dirs_log (cfg_directories cfg)) (st_jobs st)")
  case (Inl e)
  assume j: "st_jobs st = st_jobs st'"
  with Inl have "get_running_jobs w i (dirs_log (cfg_directories cfg)) (st_jobs st') = Inl e"
    by simp
  with Inl j show ?thesis
    by (simp add: rich_tick_def rich_sample_render_err)
next
  case (Inr js)
  assume j: "st_jobs st = st_jobs st'"
  with Inr have r: "get_running_jobs w i (dirs_log (cfg_directories cfg)) (st_jobs st') = Inr js"
    by simp
  show ?thesis
    using rich_wait_finished_cong
    by (simp add: rich_tick_def rich_sample_render_ok [OF Inr] rich_sample_render_ok [OF r]
        rich_wait_state) blast
qed

lemma rich_loop_raised_cong:
  "st_jobs st = st_jobs st' \<Longrightarrow>
   raised (rich_loop fuel w pm cfg tp dp i st) = raised (rich_loop fuel w pm cfg tp dp i st')"
proof (induction fuel arbitrary: i st st')
  case 0
  show ?case by simp
next
  case (Suc fuel)
  note c = rich_tick_cong [OF Suc.prems, of w pm cfg tp dp i]
  show ?case
  proof (cases "rich_tick w pm cfg tp dp i st")
    case (Next a)
    with c obtain b where b: "rich_tick w pm cfg tp dp i st' = Next b"
      by (cases "rich_tick w pm cfg tp dp i st'") simp_all
    with Next c have "st_jobs a = st_jobs b" by simp
    from Suc.IH [OF this] Next b show ?thesis by simp
  next
    case (Return a)
    with c obtain b where "rich_tick w pm cfg tp dp i st' = Return b"
      by (cases "rich_tick w pm cfg tp dp i st'") simp_all
    with Return show ?thesis by simp
  next
    case (Raise e a)
    with c obtain b where "rich_tick w pm cfg tp dp i st' = Raise e b"
      by (cases "rich_tick w pm cfg tp dp i st'") simp_all
    with Raise show ?thesis by simp
  qed
qed

text \<open>
  C5, as stated, fails: the loops have no handler around the discovery call. Where
  discovery raises in tick 1, either backend, given room for five ticks, ends with
  that exception after its second discovery call.
\<close>

theorem discovery_error_counterexample:
  "raised (with_rich 5 failing_world demo_plotman demo_cfg) =
     Some (Exception ''discovery failed'')
   \<and> count_list (st_trace (final_state (with_rich 5 failing_world demo_plotman demo_cfg)))
       GetRunningJobs = 2
   \<and> raised (with_prompt_toolkit 5 demo_console_print failing_world demo_plotman demo_cfg) =
       Some (Exception ''discovery failed'')
   \<and> count_list (st_trace (final_state
        (with_prompt_toolkit 5 demo_console_print failing_world demo_plotman demo_cfg)))
       GetRunningJobs = 2"
  by code_simp

text \<open>
  C5, amended. If the discovery call raises during the sampling step of a tick, the
  loop of either backend ends in that tick with that exception, whatever number of
  ticks it could still run: the header has been set to the tick number, the job list
  of the previous tick is unchanged, no redraw is requested in that tick and no later
  tick is run. The exception leaves \<^verbatim>\<open>with_rich\<close> through both \<^verbatim>\<open>with\<close> statements.
\<close>

theorem discovery_error_ends_loop:
  "(get_running_jobs w i (dirs_log (cfg_directories cfg)) (st_jobs st) = Inl e \<longrightarrow>
      rich_loop (Suc fuel) w pm cfg tmp_prefix dst_prefix i st =
        Raise e (st\<lparr>st_screen := (st_screen st)\<lparr>header_layout := Text (str (PyInt (int i)))\<rparr>,
                     st_trace := st_trace st @ [GetRunningJobs]\<rparr>))
   \<and> (get_running_jobs w i (dirs_log (cfg_directories cfg)) (st_jobs st') = Inl e \<longrightarrow>
      ptk_loop (Suc fuel) console_print w pm cfg tmp_prefix dst_prefix i st' =
        Raise e (st'\<lparr>st_screen := (st_screen st')\<lparr>header_buffer := str (PyInt (int i))\<rparr>,
                      st_trace := st_trace st' @ [GetRunningJobs]\<rparr>))
   \<and> raised (with_rich fuel w pm cfg) =
       raised (rich_loop fuel w pm cfg
         (commonpath pm (dirs_tmp (cfg_directories cfg)))
         (commonpath pm (dirs_dst (cfg_directories cfg))) 0
         (log_event LiveEnter (log_event RawModeEnter rich_init)))"
proof -
  have "raised (with_rich fuel w pm cfg) =
       raised (rich_loop fuel w pm cfg
         (commonpath pm (dirs_tmp (cfg_directories cfg)))
         (commonpath pm (dirs_dst (cfg_directories cfg))) 0
         (log_event LiveEnter (log_event RawModeEnter rich_init)))"
    unfolding with_rich_raised
    by (rule rich_loop_raised_cong) simp
  then show ?thesis
    by (simp add: rich_tick_def rich_sample_render_err ptk_tick_err)
qed

theorem discovery_error_ends_loop_witness:
  "rich_loop (Suc 3) failing_world demo_plotman demo_cfg ''/'' ''/dst/x'' 1 rich_init =
     Raise (Exception ''discovery failed'')
       \<lparr>st_jobs = [],
        st_screen = \<lparr>header_layout = Text (PyStr ''1''), plots_layout = Placeholder,
                     tmp_layout = Placeholder\<rparr>,
        st_trace = [GetRunningJobs]\<rparr>
   \<and> ptk_loop (Suc 3) demo_console_print failing_world demo_plotman demo_cfg ''/'' ''/dst/x'' 1
       ptk_init =
     Raise (Exception ''discovery failed'')
       \<lparr>st_jobs = [],
        st_screen = \<lparr>header_buffer = PyStr ''1'', plots_buffer = PyStr [],
                     disks_buffer = PyStr []\<rparr>,
        st_trace = [GetRunningJobs]\<rparr>"
proof -
  have h1: "get_running_jobs failing_world 1 (dirs_log (cfg_directories demo_cfg))
      (st_jobs (rich_init :: (nat \<times> nat, rich_screen) dash)) =
      Inl (Exception ''discovery failed'')"
    by (simp add: failing_world_def)
  have h2: "get_running_jobs failing_world 1 (dirs_log (cfg_directories demo_cfg))
      (st_jobs (ptk_init :: (nat \<times> nat, ptk_screen) dash)) =
      Inl (Exception ''discovery failed'')"
    by (simp add: failing_world_def)
  have s: "str (PyInt (int 1)) = PyStr ''1''"
    by code_simp
  note inst = discovery_error_ends_loop
    [where w = failing_world and i = 1 and cfg = demo_cfg and st = rich_init
       and st' = ptk_init and e = "Exception ''discovery failed''" and fuel = 3
       and pm = demo_plotman and tmp_prefix = "''/''" and dst_prefix = "''/dst/x''"
       and console_print = demo_console_print]
  have "rich_loop (Suc 3) failing_world demo_plotman demo_cfg ''/'' ''/dst/x'' 1 rich_init =
     Raise (Exception ''discovery failed'')
       \<lparr>st_jobs = [],
        st_screen = \<lparr>header_layout = Text (PyStr ''1''), plots_layout = Placeholder,
                     tmp_layout = Placeholder\<rparr>,
        st_trace = [GetRunningJobs]\<rparr>"
    using mp [OF inst [THEN conjunct1] h1] unfolding s
    by (simp add: rich_init_def rich_blank_def)
  moreover
  have "ptk_loop (Suc 3) demo_console_print failing_world demo_plotman demo_cfg ''/'' ''/dst/x'' 1
       ptk_init =
     Raise (Exception ''discovery failed'')
       \<lparr>st_jobs = [],
        st_screen = \<lparr>header_buffer = PyStr ''1'', plots_buffer = PyStr [],
                     disks_buffer = PyStr []\<rparr>,
        st_trace = [GetRunningJobs]\<rparr>"
    using mp [OF inst [THEN conjunct2, THEN conjunct1] h2] unfolding s
    by (simp add: ptk_init_def)
  ultimately show ?thesis by (rule conjI)
qed

section \<open>The frames of a run\<close>

lemma refreshed_append: "refreshed (xs @ ys) = refreshed xs @ refreshed ys"
  by (induction xs rule: refreshed.induct) simp_all

lemma invalidated_append: "invalidated (xs @ ys) = invalidated xs @ invalidated ys"
  by (induction xs rule: invalidated.induct) simp_all

lemma set_refreshed: "fr \<in> set (refreshed es) \<longleftrightarrow> Refresh fr \<in> set es"
  by (induction es rule: refreshed.induct) auto

lemma set_invalidated: "fr \<in> set (invalidated es) \<longleftrightarrow> Invalidate fr \<in> set es"
  by (induction es rule: invalidated.induct) auto

lemma refreshed_wait_events:
  "list_all (\<lambda>e. e = ReadKeys \<or> e = Sleep 100) evs \<Longrightarrow> refreshed evs = []"
  by (induction evs) auto

lemma rich_wait_refreshed:
  "refreshed (st_trace (final_state (rich_wait w i ss st))) = refreshed (st_trace st)"
proof -
  obtain evs where "st_trace (final_state (rich_wait w i ss st)) = st_trace st @ evs"
    and "list_all (\<lambda>e. e = ReadKeys \<or> e = Sleep 100) evs"
    using rich_wait_events by blast
  then show ?thesis
    by (simp add: refreshed_append refreshed_wait_events)
qed

lemma rich_tick_ok:
  "get_running_jobs w i (dirs_log (cfg_directories cfg)) (st_jobs st) = Inr js \<Longrightarrow>
   raised (rich_tick w pm cfg tp dp i st) = None
   \<and> st_jobs (final_state (rich_tick w pm cfg tp dp i st)) = js
   \<and> st_screen (final_state (rich_tick w pm cfg tp dp i st)) = rich_frame pm cfg tp dp i js
   \<and> refreshed (st_trace (final_state (rich_tick w pm cfg tp dp i st))) =
       refreshed (st_trace st) @ [rich_frame pm cfg tp dp i js]"
  by (simp add: rich_tick_def rich_sample_render_ok rich_wait_state rich_wait_refreshed
      refreshed_append)

lemma rich_tick_err:
  "get_running_jobs w i (dirs_log (cfg_directories cfg)) (st_jobs st) = Inl e \<Longrightarrow>
   rich_tick w pm cfg tp dp i st =
     Raise e (st\<lparr>st_screen := (st_screen st)\<lparr>header_layout := Text (str (PyInt (int i)))\<rparr>,
                  st_trace := st_trace st @ [GetRunningJobs]\<rparr>)"
  by (simp add: rich_tick_def rich_sample_render_err)

lemma rich_loop_frames:
  "st_jobs st = jobs_after w (dirs_log (cfg_directories cfg)) i \<Longrightarrow>
   \<exists>m\<ge>i.
     refreshed (st_trace (final_state (rich_loop fuel w pm cfg tp dp i st))) =
       refreshed (st_trace st) @
       map (\<lambda>n. rich_frame pm cfg tp dp n
                  (jobs_after w (dirs_log (cfg_directories cfg)) (Suc n))) [i..<m]
     \<and> (\<forall>n. i \<le> n \<and> n < m \<longrightarrow>
          get_running_jobs w n (dirs_log (cfg_directories cfg))
            (jobs_after w (dirs_log (cfg_directories cfg)) n) =
          Inr (jobs_after w (dirs_log (cfg_directories cfg)) (Suc n)))
     \<and> st_jobs (final_state (rich_loop fuel w pm cfg tp dp i st)) =
         jobs_after w (dirs_log (cfg_directories cfg)) m
     \<and> (raised (rich_loop fuel w pm cfg tp dp i st) = None \<longrightarrow>
          st_screen (final_state (rich_loop fuel w pm cfg tp dp i st)) =
          (if m = i then st_screen st
           else rich_frame pm cfg tp dp (m - 1)
                  (jobs_after w (dirs_log (cfg_directories cfg)) m)))
     \<and> (finished (rich_loop fuel w pm cfg tp dp i st) \<and>
        raised (rich_loop fuel w pm cfg tp dp i st) = None \<longrightarrow> i < m)
     \<and> (\<forall>e. raised (rich_loop fuel w pm cfg tp dp i st) = Some e \<longrightarrow>
          get_running_jobs w m (dirs_log (cfg_directories cfg))
            (jobs_after w (dirs_log (cfg_directories cfg)) m) = Inl e
          \<and> st_screen (final_state (rich_loop fuel w pm cfg tp dp i st)) =
            (if m = i then st_screen st
             else rich_frame pm cfg tp dp (m - 1)
                    (jobs_after w (dirs_log (cfg_directories cfg)) m))
            \<lparr>header_layout := Text (str (PyInt (int m)))\<rparr>)"
proof (induction fuel arbitrary: i st)
  case 0
  show ?case
    by (rule exI [of _ i]) (auto simp add: "0.prems" simp del: jobs_after.simps)
next
  case (Suc fuel)
  let ?log = "dirs_log (cfg_directories cfg)"
  let ?F = "\<lambda>n. rich_frame pm cfg tp dp n (jobs_after w ?log (Suc n))"
  show ?case
  proof (cases "get_running_jobs w i ?log (st_jobs st)")
    case (Inl e)
    then have d: "get_running_jobs w i ?log (jobs_after w ?log i) = Inl e"
      using Suc.prems by simp
    have t: "rich_loop (Suc fuel) w pm cfg tp dp i st =
        Raise e (st\<lparr>st_screen := (st_screen st)\<lparr>header_layout := Text (str (PyInt (int i)))\<rparr>,
                     st_trace := st_trace st @ [GetRunningJobs]\<rparr>)"
      by (simp add: rich_tick_err [OF Inl])
    show ?thesis
      unfolding t
      by (rule exI [of _ i])
        (auto simp add: d Suc.prems refreshed_append simp del: jobs_after.simps)
  next
    case (Inr js)
    then have d: "get_running_jobs w i ?log (jobs_after w ?log i) = Inr js"
      using Suc.prems by simp
    then have j: "jobs_after w ?log (Suc i) = js"
      by simp
    note ok = rich_tick_ok [OF Inr, of pm tp dp]
    show ?thesis
    proof (cases "rich_tick w pm cfg tp dp i st")
      case (Raise x st')
      with ok have False by simp
      then show ?thesis ..
    next
      case (Return st')
      with ok have s: "st_jobs st' = js" "st_screen st' = rich_frame pm cfg tp dp i js"
        "refreshed (st_trace st') = refreshed (st_trace st) @ [rich_frame pm cfg tp dp i js]"
        by simp_all
      have l: "rich_loop (Suc fuel) w pm cfg tp dp i st = Return st'"
        using Return by simp
      show ?thesis
      proof (rule exI [of _ "Suc i"], intro conjI)
        show "i \<le> Suc i" by simp
        show "refreshed (st_trace (final_state (rich_loop (Suc fuel) w pm cfg tp dp i st))) =
            refreshed (st_trace st) @ map ?F [i..<Suc i]"
          using s j unfolding l by (simp del: jobs_after.simps)
        show "\<forall>n. i \<le> n \<and> n < Suc i \<longrightarrow>
            get_running_jobs w n ?log (jobs_after w ?log n) = Inr (jobs_after w ?log (Suc n))"
        proof (intro allI impI)
          fix n assume "i \<le> n \<and> n < Suc i"
          then have "n = i" by linarith
          then show "get_running_jobs w n ?log (jobs_after w ?log n) =
              Inr (jobs_after w ?log (Suc n))"
            using d j by (simp del: jobs_after.simps)
        qed
        show "st_jobs (final_state (rich_loop (Suc fuel) w pm cfg tp dp i st)) =
            jobs_after w ?log (Suc i)"
          using s j unfolding l by (simp del: jobs_after.simps)
        show "raised (rich_loop (Suc fuel) w pm cfg tp dp i st) = None \<longrightarrow>
            st_screen (final_state (rich_loop (Suc fuel) w pm cfg tp dp i st)) =
            (if Suc i = i then st_screen st
             else rich_frame pm cfg tp dp (Suc i - 1) (jobs_after w ?log (Suc i)))"
          using s j unfolding l by (simp del: jobs_after.simps)
        show "finished (rich_loop (Suc fuel) w pm cfg tp dp i st) \<and>
            raised (rich_loop (Suc fuel) w pm cfg tp dp i st) = None \<longrightarrow> i < Suc i"
          by simp
        show "\<forall>e. raised (rich_loop (Suc fuel) w pm cfg tp dp i st) = Some e \<longrightarrow>
            get_running_jobs w (Suc i) ?log (jobs_after w ?log (Suc i)) = Inl e \<and>
            st_screen (final_state (rich_loop (Suc fuel) w pm cfg tp dp i st)) =
            (if Suc i = i then st_screen st
             else rich_frame pm cfg tp dp (Suc i - 1) (jobs_after w ?log (Suc i)))
            \<lparr>header_layout := Text (str (PyInt (int (Suc i))))\<rparr>"
          unfolding l by (simp del: jobs_after.simps)
      qed
    next
      case (Next st')
      with ok have s: "st_jobs st' = js" "st_screen st' = rich_frame pm cfg tp dp i js"
        "refreshed (st_trace st') = refreshed (st_trace st) @ [rich_frame pm cfg tp dp i js]"
        by simp_all
      have l: "rich_loop (Suc fuel) w pm cfg tp dp i st =
          rich_loop fuel w pm cfg tp dp (Suc i) st'"
        using Next by simp
      have "st_jobs st' = jobs_after w ?log (Suc i)"
        using s j by (simp del: jobs_after.simps)
      from Suc.IH [OF this] obtain m where ih: "Suc i \<le> m \<and>
            refreshed (st_trace (final_state (rich_loop fuel w pm cfg tp dp (Suc i) st'))) =
            refreshed (st_trace st') @ map ?F [Suc i..<m] \<and>
            (\<forall>n. Suc i \<le> n \<and> n < m \<longrightarrow>
            get_running_jobs w n ?log (jobs_after w ?log n) = Inr (jobs_after w ?log (Suc n))) \<and>
            st_jobs (final_state (rich_loop fuel w pm cfg tp dp (Suc i) st')) =
            jobs_after w ?log m \<and>
            (raised (rich_loop fuel w pm cfg tp dp (Suc i) st') = None \<longrightarrow>
            st_screen (final_state (rich_loop fuel w pm cfg tp dp (Suc i) st')) =
            (if m = Suc i then st_screen st'
             else rich_frame pm cfg tp dp (m - 1) (jobs_after w ?log m))) \<and>
            (finished (rich_loop fuel w pm cfg tp dp (Suc i) st') \<and>
             raised (rich_loop fuel w pm cfg tp dp (Suc i) st') = None \<longrightarrow> Suc i < m) \<and>
            (\<forall>e. raised (rich_loop fuel w pm cfg tp dp (Suc i) st') = Some e \<longrightarrow>
            get_running_jobs w m ?log (jobs_after w ?log m) = Inl e \<and>
            st_screen (final_state (rich_loop fuel w pm cfg tp dp (Suc i) st')) =
            (if m = Suc i then st_screen st'
             else rich_frame pm cfg tp dp (m - 1) (jobs_after w ?log m))
            \<lparr>header_layout := Text (str (PyInt (int m)))\<rparr>)"
        unfolding Bex_def ..
      note m = ih [THEN conjunct1]
      note r = ih [THEN conjunct2, THEN conjunct1]
      note g = ih [THEN conjunct2, THEN conjunct2, THEN conjunct1]
      note jj = ih [THEN conjunct2, THEN conjunct2, THEN conjunct2, THEN conjunct1]
      note sn = ih [THEN conjunct2, THEN conjunct2, THEN conjunct2, THEN conjunct2,
          THEN conjunct1]
      note se = ih [THEN conjunct2, THEN conjunct2, THEN conjunct2, THEN conjunct2,
          THEN conjunct2, THEN conjunct2]
      have up: "[i..<m] = i # [Suc i..<m]"
        using m by (simp add: upt_conv_Cons)
      have sc: "(if m = Suc i then st_screen st'
             else rich_frame pm cfg tp dp (m - 1) (jobs_after w ?log m)) =
            rich_frame pm cfg tp dp (m - 1) (jobs_after w ?log m)"
        by (cases "m = Suc i") (simp_all add: s j del: jobs_after.simps)
      have ne: "m \<noteq> i" using m by simp
      show ?thesis
      proof (rule exI [of _ m], intro conjI)
        show "i \<le> m" using m by simp
        show "refreshed (st_trace (final_state (rich_loop (Suc fuel) w pm cfg tp dp i st))) =
            refreshed (st_trace st) @ map ?F [i..<m]"
          using r s j unfolding l up by (simp del: jobs_after.simps)
        show "\<forall>n. i \<le> n \<and> n < m \<longrightarrow>
            get_running_jobs w n ?log (jobs_after w ?log n) = Inr (jobs_after w ?log (Suc n))"
        proof (intro allI impI)
          fix n assume "i \<le> n \<and> n < m"
          then consider "n = i" | "Suc i \<le> n \<and> n < m" by linarith
          then show "get_running_jobs w n ?log (jobs_after w ?log n) =
              Inr (jobs_after w ?log (Suc n))"
          proof cases
            case 1
            then show ?thesis using d j by (simp del: jobs_after.simps)
          next
            case 2
            then show ?thesis using g by blast
          qed
        qed
        show "st_jobs (final_state (rich_loop (Suc fuel) w pm cfg tp dp i st)) =
            jobs_after w ?log m"
          using jj unfolding l by (simp del: jobs_after.simps)
        show "raised (rich_loop (Suc fuel) w pm cfg tp dp i st) = None \<longrightarrow>
            st_screen (final_state (rich_loop (Suc fuel) w pm cfg tp dp i st)) =
            (if m = i then st_screen st
             else rich_frame pm cfg tp dp (m - 1) (jobs_after w ?log m))"
          using sn ne unfolding sc l by (simp del: jobs_after.simps)
        show "finished (rich_loop (Suc fuel) w pm cfg tp dp i st) \<and>
            raised (rich_loop (Suc fuel) w pm cfg tp dp i st) = None \<longrightarrow> i < m"
          using m by simp
        show "\<forall>e. raised (rich_loop (Suc fuel) w pm cfg tp dp i st) = Some e \<longrightarrow>
            get_running_jobs w m ?log (jobs_after w ?log m) = Inl e \<and>
            st_screen (final_state (rich_loop (Suc fuel) w pm cfg tp dp i st)) =
            (if m = i then st_screen st
             else rich_frame pm cfg tp dp (m - 1) (jobs_after w ?log m))
            \<lparr>header_layout := Text (str (PyInt (int m)))\<rparr>"
          using se ne unfolding sc l by (simp del: jobs_after.simps)
      qed
    qed
  qed
qed

lemma ptk_tick_frames:
  "get_running_jobs w i (dirs_log (cfg_directories cfg)) (st_jobs st) = Inr js \<Longrightarrow>
   raised (ptk_tick console_print w pm cfg tp dp i st) = None
   \<and> st_jobs (final_state (ptk_tick console_print w pm cfg tp dp i st)) = js
   \<and> invalidated (st_trace (final_state (ptk_tick console_print w pm cfg tp dp i st))) =
       invalidated (st_trace st) @ [ptk_frame console_print pm cfg tp dp i js]"
  by (simp add: ptk_tick_ok invalidated_append)

lemma ptk_loop_frames:
  "st_jobs st = jobs_after w (dirs_log (cfg_directories cfg)) i \<Longrightarrow>
   \<exists>m. i \<le> m \<and>
     invalidated (st_trace (final_state (ptk_loop fuel console_print w pm cfg tp dp i st))) =
       invalidated (st_trace st) @
       map (\<lambda>n. ptk_frame console_print pm cfg tp dp n
                  (jobs_after w (dirs_log (cfg_directories cfg)) (Suc n))) [i..<m]
     \<and> (\<forall>n. i \<le> n \<and> n < m \<longrightarrow>
          get_running_jobs w n (dirs_log (cfg_directories cfg))
            (jobs_after w (dirs_log (cfg_directories cfg)) n) =
          Inr (jobs_after w (dirs_log (cfg_directories cfg)) (Suc n)))"
proof (induction fuel arbitrary: i st)
  case 0
  show ?case
    by (rule exI [of _ i]) (auto simp del: jobs_after.simps)
next
  case (Suc fuel)
  let ?log = "dirs_log (cfg_directories cfg)"
  let ?G = "\<lambda>n. ptk_frame console_print pm cfg tp dp n (jobs_after w ?log (Suc n))"
  show ?case
  proof (cases "get_running_jobs w i ?log (st_jobs st)")
    case (Inl e)
    have t: "ptk_loop (Suc fuel) console_print w pm cfg tp dp i st =
        Raise e (st\<lparr>st_screen := (st_screen st)\<lparr>header_buffer := str (PyInt (int i))\<rparr>,
                     st_trace := st_trace st @ [GetRunningJobs]\<rparr>)"
      by (simp add: ptk_tick_err [OF Inl])
    show ?thesis
      unfolding t
      by (rule exI [of _ i]) (auto simp add: invalidated_append simp del: jobs_after.simps)
  next
    case (Inr js)
    then have d: "get_running_jobs w i ?log (jobs_after w ?log i) = Inr js"
      using Suc.prems by simp
    then have j: "jobs_after w ?log (Suc i) = js"
      by simp
    note ok = ptk_tick_frames [OF Inr, of console_print pm tp dp]
    have one: "\<forall>n. i \<le> n \<and> n < Suc i \<longrightarrow>
        get_running_jobs w n ?log (jobs_after w ?log n) = Inr (jobs_after w ?log (Suc n))"
    proof (intro allI impI)
      fix n assume "i \<le> n \<and> n < Suc i"
      then have "n = i" by linarith
      then show "get_running_jobs w n ?log (jobs_after w ?log n) =
          Inr (jobs_after w ?log (Suc n))"
        using d j by (simp del: jobs_after.simps)
    qed
    show ?thesis
    proof (cases "ptk_tick console_print w pm cfg tp dp i st")
      case (Raise x st')
      with ok have False by simp
      then show ?thesis ..
    next
      case (Return st')
      with ok have s: "invalidated (st_trace st') =
          invalidated (st_trace st) @ [ptk_frame console_print pm cfg tp dp i js]"
        by simp
      have l: "ptk_loop (Suc fuel) console_print w pm cfg tp dp i st = Return st'"
        using Return by simp
      have "invalidated (st_trace (final_state
              (ptk_loop (Suc fuel) console_print w pm cfg tp dp i st))) =
            invalidated (st_trace st) @ map ?G [i..<Suc i]"
        using s j unfolding l by (simp del: jobs_after.simps)
      with one show ?thesis
        by (intro exI [of _ "Suc i"] conjI) simp_all
    next
      case (Next st')
      with ok have s: "st_jobs st' = js" "invalidated (st_trace st') =
          invalidated (st_trace st) @ [ptk_frame console_print pm cfg tp dp i js]"
        by simp_all
      have l: "ptk_loop (Suc fuel) console_print w pm cfg tp dp i st =
          ptk_loop fuel console_print w pm cfg tp dp (Suc i) st'"
        using Next by simp
      have "st_jobs st' = jobs_after w ?log (Suc i)"
        using s j by (simp del: jobs_after.simps)
      from Suc.IH [OF this] obtain m where ih: "Suc i \<le> m \<and>
          invalidated (st_trace (final_state
            (ptk_loop fuel console_print w pm cfg tp dp (Suc i) st'))) =
          invalidated (st_trace st') @ map ?G [Suc i..<m] \<and>
          (\<forall>n. Suc i \<le> n \<and> n < m \<longrightarrow>
            get_running_jobs w n ?log (jobs_after w ?log n) = Inr (jobs_after w ?log (Suc n)))"
        ..
      note m = ih [THEN conjunct1]
      note r = ih [THEN conjunct2, THEN conjunct1]
      note g = ih [THEN conjunct2, THEN conjunct2]
      have up: "[i..<m] = i # [Suc i..<m]"
        using m by (simp add: upt_conv_Cons)
      show ?thesis
      proof (rule exI [of _ m], intro conjI)
        show "i \<le> m" using m by simp
        show "invalidated (st_trace (final_state
              (ptk_loop (Suc fuel) console_print w pm cfg tp dp i st))) =
            invalidated (st_trace st) @ map ?G [i..<m]"
          using r s j unfolding l up by (simp del: jobs_after.simps)
        show "\<forall>n. i \<le> n \<and> n < m \<longrightarrow>
            get_running_jobs w n ?log (jobs_after w ?log n) = Inr (jobs_after w ?log (Suc n))"
        proof (intro allI impI)
          fix n assume "i \<le> n \<and> n < m"
          then consider "n = i" | "Suc i \<le> n \<and> n < m" by linarith
          then show "get_running_jobs w n ?log (jobs_after w ?log n) =
              Inr (jobs_after w ?log (Suc n))"
          proof cases
            case 1
            then show ?thesis using d j by (simp del: jobs_after.simps)
          next
            case 2
            then show ?thesis using g by blast
          qed
        qed
      qed
    qed
  qed
qed

lemma with_prompt_toolkit_frames:
  "\<exists>m. invalidated (st_trace (final_state
           (with_prompt_toolkit fuel console_print w pm cfg))) =
         map (\<lambda>n. ptk_frame console_print pm cfg
                    (commonpath pm (dirs_tmp (cfg_directories cfg)))
                    (commonpath pm (dirs_dst (cfg_directories cfg))) n
                    (jobs_after w (dirs_log (cfg_directories cfg)) (Suc n))) [0..<m]
       \<and> (\<forall>n<m. get_running_jobs w n (dirs_log (cfg_directories cfg))
                   (jobs_after w (dirs_log (cfg_directories cfg)) n) =
                 Inr (jobs_after w (dirs_log (cfg_directories cfg)) (Suc n)))"
proof -
  have "st_jobs (ptk_init :: ('a, ptk_screen) dash) =
      jobs_after w (dirs_log (cfg_directories cfg)) 0"
    by (simp add: ptk_init_def)
  from ptk_loop_frames [OF this, of fuel console_print pm
      "commonpath pm (dirs_tmp (cfg_directories cfg))"
      "commonpath pm (dirs_dst (cfg_directories cfg))"]
  show ?thesis
    by (auto simp add: with_prompt_toolkit_def ptk_init_def simp del: jobs_after.simps)
qed

lemma with_rich_frames:
  "\<exists>m. refreshed (st_trace (final_state (with_rich fuel w pm cfg))) =
         rich_blank #
         map (\<lambda>n. rich_frame pm cfg
                    (commonpath pm (dirs_tmp (cfg_directories cfg)))
                    (commonpath pm (dirs_dst (cfg_directories cfg))) n
                    (jobs_after w (dirs_log (cfg_directories cfg)) (Suc n))) [0..<m] @
         (if finished (with_rich fuel w pm cfg)
          then [st_screen (final_state (with_rich fuel w pm cfg))] else [])
       \<and> (\<forall>n<m. get_running_jobs w n (dirs_log (cfg_directories cfg))
                   (jobs_after w (dirs_log (cfg_directories cfg)) n) =
                 Inr (jobs_after w (dirs_log (cfg_directories cfg)) (Suc n)))
       \<and> (raised (with_rich fuel w pm cfg) = None \<longrightarrow>
            st_screen (final_state (with_rich fuel w pm cfg)) =
            (if m = 0 then rich_blank
             else rich_frame pm cfg
                    (commonpath pm (dirs_tmp (cfg_directories cfg)))
                    (commonpath pm (dirs_dst (cfg_directories cfg))) (m - 1)
                    (jobs_after w (dirs_log (cfg_directories cfg)) m)))
       \<and> (finished (with_rich fuel w pm cfg) \<and> raised (with_rich fuel w pm cfg) = None \<longrightarrow>
            0 < m)
       \<and> (\<forall>e. raised (with_rich fuel w pm cfg) = Some e \<longrightarrow>
            get_running_jobs w m (dirs_log (cfg_directories cfg))
              (jobs_after w (dirs_log (cfg_directories cfg)) m) = Inl e
            \<and> st_screen (final_state (with_rich fuel w pm cfg)) =
              (if m = 0 then rich_blank
               else rich_frame pm cfg
                      (commonpath pm (dirs_tmp (cfg_directories cfg)))
                      (commonpath pm (dirs_dst (cfg_directories cfg))) (m - 1)
                      (jobs_after w (dirs_log (cfg_directories cfg)) m))
              \<lparr>header_layout := Text (str (PyInt (int m)))\<rparr>)"
proof -
  let ?log = "dirs_log (cfg_directories cfg)"
  let ?tp = "commonpath pm (dirs_tmp (cfg_directories cfg))"
  let ?dp = "commonpath pm (dirs_dst (cfg_directories cfg))"
  let ?F = "\<lambda>n. rich_frame pm cfg ?tp ?dp n (jobs_after w ?log (Suc n))"
  let ?st2 = "log_event (Refresh rich_blank)
      (log_event LiveEnter (log_event RawModeEnter (rich_init :: ('a, rich_screen) dash)))"
  let ?L = "rich_loop fuel w pm cfg ?tp ?dp 0 ?st2"
  let ?R = "with_rich fuel w pm cfg"
  obtain evs where
    tl: "st_trace (final_state ?L) = [RawModeEnter, LiveEnter, Refresh rich_blank] @ evs"
    and tr: "st_trace (final_state ?R) =
           RawModeEnter # LiveEnter # Refresh rich_blank # evs @
             (if finished ?R then [Refresh (st_screen (final_state ?R)), LiveExit, RawModeExit]
              else [])"
    using with_rich_trace [of w pm cfg fuel] by blast
  have "st_jobs ?st2 = jobs_after w ?log 0"
    by simp
  from rich_loop_frames [OF this, of fuel pm ?tp ?dp] obtain m where ih: "0 \<le> m \<and>
      refreshed (st_trace (final_state ?L)) = refreshed (st_trace ?st2) @ map ?F [0..<m] \<and>
      (\<forall>n. 0 \<le> n \<and> n < m \<longrightarrow>
         get_running_jobs w n ?log (jobs_after w ?log n) = Inr (jobs_after w ?log (Suc n))) \<and>
      st_jobs (final_state ?L) = jobs_after w ?log m \<and>
      (raised ?L = None \<longrightarrow>
         st_screen (final_state ?L) =
         (if m = 0 then st_screen ?st2
          else rich_frame pm cfg ?tp ?dp (m - 1) (jobs_after w ?log m))) \<and>
      (finished ?L \<and> raised ?L = None \<longrightarrow> 0 < m) \<and>
      (\<forall>e. raised ?L = Some e \<longrightarrow>
         get_running_jobs w m ?log (jobs_after w ?log m) = Inl e \<and>
         st_screen (final_state ?L) =
         (if m = 0 then st_screen ?st2
          else rich_frame pm cfg ?tp ?dp (m - 1) (jobs_after w ?log m))
         \<lparr>header_layout := Text (str (PyInt (int m)))\<rparr>)"
    unfolding Bex_def ..
  note r = ih [THEN conjunct2, THEN conjunct1]
  note g = ih [THEN conjunct2, THEN conjunct2, THEN conjunct1]
  note sn = ih [THEN conjunct2, THEN conjunct2, THEN conjunct2, THEN conjunct2,
      THEN conjunct1]
  note fn = ih [THEN conjunct2, THEN conjunct2, THEN conjunct2, THEN conjunct2,
      THEN conjunct2, THEN conjunct1]
  note se = ih [THEN conjunct2, THEN conjunct2, THEN conjunct2, THEN conjunct2,
      THEN conjunct2, THEN conjunct2]
  have s2: "st_screen ?st2 = rich_blank" "refreshed (st_trace ?st2) = [rich_blank]"
    by simp_all
  have "refreshed (st_trace (final_state ?L)) = rich_blank # refreshed evs"
    unfolding tl by simp
  with r have ev: "refreshed evs = map ?F [0..<m]"
    unfolding s2 by simp
  have 1: "refreshed (st_trace (final_state ?R)) =
      rich_blank # map ?F [0..<m] @
      (if finished ?R then [st_screen (final_state ?R)] else [])"
    unfolding tr by (simp add: refreshed_append ev)
  have 2: "\<forall>n<m. get_running_jobs w n ?log (jobs_after w ?log n) =
      Inr (jobs_after w ?log (Suc n))"
    using g by simp
  have 3: "raised ?R = None \<longrightarrow>
      st_screen (final_state ?R) =
      (if m = 0 then rich_blank else rich_frame pm cfg ?tp ?dp (m - 1) (jobs_after w ?log m))"
    using sn unfolding s2 with_rich_raised with_rich_screen .
  have 4: "finished ?R \<and> raised ?R = None \<longrightarrow> 0 < m"
    using fn unfolding with_rich_raised with_rich_finished .
  have 5: "\<forall>e. raised ?R = Some e \<longrightarrow>
      get_running_jobs w m ?log (jobs_after w ?log m) = Inl e \<and>
      st_screen (final_state ?R) =
      (if m = 0 then rich_blank else rich_frame pm cfg ?tp ?dp (m - 1) (jobs_after w ?log m))
      \<lparr>header_layout := Text (str (PyInt (int m)))\<rparr>"
    using se unfolding s2 with_rich_raised with_rich_screen .
  show ?thesis
    by (rule exI [of _ m]) (intro conjI 1 2 3 4 5)
qed

section \<open>What the redraws show\<close>

lemma rich_frame_fields:
  "rich_frame pm cfg tmp_prefix dst_prefix i js =
     \<lparr>header_layout = Text (str (PyInt (int i))),
      plots_layout = Tbl
        \<lparr>columns = ''#'' # JobRow_field_names,
         rows = map (\<lambda>(index, row). str (PyInt (int index)) # astuple_JobRow row)
                  (enumerate 0 (build_jobs_data pm js dst_prefix tmp_prefix))\<rparr>,
      tmp_layout = Tbl
        \<lparr>columns = TmpRow_field_names,
         rows = map astuple_TmpRow
                  (build_tmp_data pm js (cfg_directories cfg) (cfg_scheduling cfg)
                     tmp_prefix)\<rparr>\<rparr>"
  by (simp add: rich_frame_def build_jobs_table_def build_tmp_table_def)

lemma ptk_frame_fields:
  "ptk_frame console_print pm cfg tmp_prefix dst_prefix i js =
     \<lparr>header_buffer = str (PyInt (int i)),
      plots_buffer = PyObj (console_print
        \<lparr>columns = ''#'' # JobRow_field_names,
         rows = map (\<lambda>(index, row). str (PyInt (int index)) # astuple_JobRow row)
                  (enumerate 0 (build_jobs_data pm js dst_prefix tmp_prefix))\<rparr>),
      disks_buffer = PyObj (console_print
        \<lparr>columns = TmpRow_field_names,
         rows = map astuple_TmpRow
                  (build_tmp_data pm js (cfg_directories cfg) (cfg_scheduling cfg)
                     tmp_prefix)\<rparr>)\<rparr>"
  by (simp add: ptk_frame_def build_jobs_table_def build_tmp_table_def capture_rich_def)

text \<open>
  C4, as stated, fails in the polling backend: leaving \<^verbatim>\<open>Live\<close> draws the layout
  once more. Where discovery raises in tick 1, the run draws three frames: the empty
  layout, the frame of tick 0 (header \<^verbatim>\<open>0\<close>), and on the way out the header \<^verbatim>\<open>1\<close>
  over the two tables of tick 0.
\<close>

theorem mixed_frame_counterexample:
  "refreshed (st_trace (final_state (with_rich 5 failing_world demo_plotman demo_cfg))) =
     [rich_blank,
      rich_frame demo_plotman demo_cfg ''/'' ''/dst/x'' 0 demo_jobs,
      (rich_frame demo_plotman demo_cfg ''/'' ''/dst/x'' 0 demo_jobs)
        \<lparr>header_layout := Text (PyStr ''1'')\<rparr>]
   \<and> header_layout (rich_frame demo_plotman demo_cfg ''/'' ''/dst/x'' 0 demo_jobs) =
       Text (PyStr ''0'')"
  by code_simp

text \<open>
  C4, amended. In a tick of either backend whose discovery call returns the jobs
  \<open>js\<close>, the loop requests the redraw (\<^verbatim>\<open>live.refresh()\<close>,
  \<^verbatim>\<open>application.invalidate()\<close>) when the screen holds the tick number, the jobs table
  with the rows of \<^verbatim>\<open>build_jobs_data\<close> for \<open>js\<close> and the tmp table with the rows of
  \<^verbatim>\<open>build_tmp_data\<close> for \<open>js\<close>, and it writes nothing between the discovery call and
  the request. In a whole run the redraws requested by the loop are, in order, the
  frames of the ticks \<open>0, 1, \<dots>, m - 1\<close>, each built from the job list that the
  discovery call of its own tick returned. The polling backend draws two more frames:
  the empty layout when \<^verbatim>\<open>Live\<close> is entered, and the screen as it is when \<^verbatim>\<open>Live\<close>
  is left. After a quit that last screen is the frame of the last tick; after a
  discovery error in tick \<open>m\<close> it is the screen of tick \<open>m - 1\<close> (the empty layout if
  \<open>m = 0\<close>) with the header set to \<open>m\<close>.
\<close>

theorem redraw_requests_show_one_tick:
  "(get_running_jobs w i (dirs_log (cfg_directories cfg)) (st_jobs st) = Inr js \<longrightarrow>
      rich_sample_render w pm cfg tmp_prefix dst_prefix i st =
        Next \<lparr>st_jobs = js,
              st_screen = rich_frame pm cfg tmp_prefix dst_prefix i js,
              st_trace = st_trace st @
                [GetRunningJobs, Refresh (rich_frame pm cfg tmp_prefix dst_prefix i js)]\<rparr>)
   \<and> (get_running_jobs w i (dirs_log (cfg_directories cfg)) (st_jobs st') = Inr js \<longrightarrow>
      ptk_tick console_print w pm cfg tmp_prefix dst_prefix i st' =
        (if list_ex (\<lambda>k. k \<in> quit_keys) (app_keys w i) then Return else Next)
          \<lparr>st_jobs = js,
           st_screen = ptk_frame console_print pm cfg tmp_prefix dst_prefix i js,
           st_trace = st_trace st' @
             [GetRunningJobs,
              Invalidate (ptk_frame console_print pm cfg tmp_prefix dst_prefix i js),
              AwaitSleep 1000]\<rparr>)
   \<and> rich_frame pm cfg tmp_prefix dst_prefix i js =
       \<lparr>header_layout = Text (str (PyInt (int i))),
        plots_layout = Tbl
          \<lparr>columns = ''#'' # JobRow_field_names,
           rows = map (\<lambda>(index, row). str (PyInt (int index)) # astuple_JobRow row)
                    (enumerate 0 (build_jobs_data pm js dst_prefix tmp_prefix))\<rparr>,
        tmp_layout = Tbl
          \<lparr>columns = TmpRow_field_names,
           rows = map astuple_TmpRow
                    (build_tmp_data pm js (cfg_directories cfg) (cfg_scheduling cfg)
                       tmp_prefix)\<rparr>\<rparr>
   \<and> ptk_frame console_print pm cfg tmp_prefix dst_prefix i js =
       \<lparr>header_buffer = str (PyInt (int i)),
        plots_buffer = PyObj (console_print
          \<lparr>columns = ''#'' # JobRow_field_names,
           rows = map (\<lambda>(index, row). str (PyInt (int index)) # astuple_JobRow row)
                    (enumerate 0 (build_jobs_data pm js dst_prefix tmp_prefix))\<rparr>),
        disks_buffer = PyObj (console_print
          \<lparr>columns = TmpRow_field_names,
           rows = map astuple_TmpRow
                    (build_tmp_data pm js (cfg_directories cfg) (cfg_scheduling cfg)
                       tmp_prefix)\<rparr>)\<rparr>
   \<and> (\<exists>m. refreshed (st_trace (final_state (with_rich fuel w pm cfg))) =
         rich_blank #
         map (\<lambda>n. rich_frame pm cfg
                    (commonpath pm (dirs_tmp (cfg_directories cfg)))
                    (commonpath pm (dirs_dst (cfg_directories cfg))) n
                    (jobs_after w (dirs_log (cfg_directories cfg)) (Suc n))) [0..<m] @
         (if finished (with_rich fuel w pm cfg)
          then [st_screen (final_state (with_rich fuel w pm cfg))] else [])
       \<and> (\<forall>n<m. get_running_jobs w n (dirs_log (cfg_directories cfg))
                   (jobs_after w (dirs_log (cfg_directories cfg)) n) =
                 Inr (jobs_after w (dirs_log (cfg_directories cfg)) (Suc n)))
       \<and> (raised (with_rich fuel w pm cfg) = None \<longrightarrow>
            st_screen (final_state (with_rich fuel w pm cfg)) =
            (if m = 0 then rich_blank
             else rich_frame pm cfg
                    (commonpath pm (dirs_tmp (cfg_directories cfg)))
                    (commonpath pm (dirs_dst (cfg_directories cfg))) (m - 1)
                    (jobs_after w (dirs_log (cfg_directories cfg)) m)))
       \<and> (finished (with_rich fuel w pm cfg) \<and> raised (with_rich fuel w pm cfg) = None \<longrightarrow>
            0 < m)
       \<and> (\<forall>e. raised (with_rich fuel w pm cfg) = Some e \<longrightarrow>
            get_running_jobs w m (dirs_log (cfg_directories cfg))
              (jobs_after w (dirs_log (cfg_directories cfg)) m) = Inl e
            \<and> st_screen (final_state (with_rich fuel w pm cfg)) =
              (if m = 0 then rich_blank
               else rich_frame pm cfg
                      (commonpath pm (dirs_tmp (cfg_directories cfg)))
                      (commonpath pm (dirs_dst (cfg_directories cfg))) (m - 1)
                      (jobs_after w (dirs_log (cfg_directories cfg)) m))
              \<lparr>header_layout := Text (str (PyInt (int m)))\<rparr>))
   \<and> (\<exists>m. invalidated (st_trace (final_state
           (with_prompt_toolkit fuel console_print w pm cfg))) =
         map (\<lambda>n. ptk_frame console_print pm cfg
                    (commonpath pm (dirs_tmp (cfg_directories cfg)))
                    (commonpath pm (dirs_dst (cfg_directories cfg))) n
                    (jobs_after w (dirs_log (cfg_directories cfg)) (Suc n))) [0..<m]
       \<and> (\<forall>n<m. get_running_jobs w n (dirs_log (cfg_directories cfg))
                   (jobs_after w (dirs_log (cfg_directories cfg)) n) =
                 Inr (jobs_after w (dirs_log (cfg_directories cfg)) (Suc n))))"
proof (intro conjI impI)
  assume "get_running_jobs w i (dirs_log (cfg_directories cfg)) (st_jobs st) = Inr js"
  then show "rich_sample_render w pm cfg tmp_prefix dst_prefix i st =
        Next \<lparr>st_jobs = js,
              st_screen = rich_frame pm cfg tmp_prefix dst_prefix i js,
              st_trace = st_trace st @
                [GetRunningJobs, Refresh (rich_frame pm cfg tmp_prefix dst_prefix i js)]\<rparr>"
    by (rule rich_sample_render_ok)
next
  assume "get_running_jobs w i (dirs_log (cfg_directories cfg)) (st_jobs st') = Inr js"
  then show "ptk_tick console_print w pm cfg tmp_prefix dst_prefix i st' =
        (if list_ex (\<lambda>k. k \<in> quit_keys) (app_keys w i) then Return else Next)
          \<lparr>st_jobs = js,
           st_screen = ptk_frame console_print pm cfg tmp_prefix dst_prefix i js,
           st_trace = st_trace st' @
             [GetRunningJobs,
              Invalidate (ptk_frame console_print pm cfg tmp_prefix dst_prefix i js),
              AwaitSleep 1000]\<rparr>"
    by (rule ptk_tick_ok)
qed (rule rich_frame_fields ptk_frame_fields with_rich_frames with_prompt_toolkit_frames)+

theorem redraw_requests_show_one_tick_witness:
  "rich_sample_render demo_world demo_plotman demo_cfg ''/'' ''/dst/x'' 0 rich_init =
     Next \<lparr>st_jobs = demo_jobs,
           st_screen = rich_frame demo_plotman demo_cfg ''/'' ''/dst/x'' 0 demo_jobs,
           st_trace =
             [GetRunningJobs, Refresh (rich_frame demo_plotman demo_cfg ''/'' ''/dst/x'' 0 demo_jobs)]\<rparr>
   \<and> ptk_tick demo_console_print demo_world demo_plotman demo_cfg ''/'' ''/dst/x'' 0 ptk_init =
     Next \<lparr>st_jobs = demo_jobs,
           st_screen = ptk_frame demo_console_print demo_plotman demo_cfg ''/'' ''/dst/x'' 0
             demo_jobs,
           st_trace =
             [GetRunningJobs,
              Invalidate (ptk_frame demo_console_print demo_plotman demo_cfg ''/'' ''/dst/x'' 0
                demo_jobs),
              AwaitSleep 1000]\<rparr>
   \<and> tmp_layout (rich_frame demo_plotman demo_cfg ''/'' ''/dst/x'' 0 demo_jobs) =
       Tbl \<lparr>columns = [''tmp'', ''ready'', ''phases''],
            rows = [[PyStr ''a'', PyStr ''OK'', PyStr ''1:2 3:4''],
                    [PyStr ''b'', PyStr ''--'', PyStr ''2:1'']]\<rparr>
   \<and> refreshed (st_trace (final_state (with_rich 5 demo_world demo_plotman demo_cfg))) =
       [rich_blank,
        rich_frame demo_plotman demo_cfg ''/'' ''/dst/x'' 0 demo_jobs,
        rich_frame demo_plotman demo_cfg ''/'' ''/dst/x'' 1 demo_jobs,
        rich_frame demo_plotman demo_cfg ''/'' ''/dst/x'' 1 demo_jobs]
   \<and> invalidated (st_trace (final_state
         (with_prompt_toolkit 5 demo_console_print demo_world demo_plotman demo_cfg))) =
       [ptk_frame demo_console_print demo_plotman demo_cfg ''/'' ''/dst/x'' 0 demo_jobs,
        ptk_frame demo_console_print demo_plotman demo_cfg ''/'' ''/dst/x'' 1 demo_jobs]"
proof -
  have h: "get_running_jobs demo_world 0 (dirs_log (cfg_directories demo_cfg))
      (st_jobs (rich_init :: (nat \<times> nat, rich_screen) dash)) = Inr demo_jobs"
    by (simp add: demo_world_def)
  have h': "get_running_jobs demo_world 0 (dirs_log (cfg_directories demo_cfg))
      (st_jobs (ptk_init :: (nat \<times> nat, ptk_screen) dash)) = Inr demo_jobs"
    by (simp add: demo_world_def)
  have t': "st_trace (ptk_init :: (nat \<times> nat, ptk_screen) dash) = []"
    by (simp add: ptk_init_def)
  have k: "\<not> list_ex (\<lambda>k. k \<in> quit_keys) (app_keys demo_world 0)"
    by (simp add: demo_world_def)
  note inst = redraw_requests_show_one_tick
    [where w = demo_world and i = 0 and cfg = demo_cfg and st = rich_init
       and st' = ptk_init and js = demo_jobs and fuel = 5
       and pm = demo_plotman and tmp_prefix = "''/''" and dst_prefix = "''/dst/x''"
       and console_print = demo_console_print]
  have a: "rich_sample_render demo_world demo_plotman demo_cfg ''/'' ''/dst/x'' 0 rich_init =
     Next \<lparr>st_jobs = demo_jobs,
           st_screen = rich_frame demo_plotman demo_cfg ''/'' ''/dst/x'' 0 demo_jobs,
           st_trace =
             [GetRunningJobs, Refresh (rich_frame demo_plotman demo_cfg ''/'' ''/dst/x'' 0 demo_jobs)]\<rparr>"
    using mp [OF inst [THEN conjunct1] h] by simp
  have b: "ptk_tick demo_console_print demo_world demo_plotman demo_cfg ''/'' ''/dst/x'' 0 ptk_init =
     Next \<lparr>st_jobs = demo_jobs,
           st_screen = ptk_frame demo_console_print demo_plotman demo_cfg ''/'' ''/dst/x'' 0
             demo_jobs,
           st_trace =
             [GetRunningJobs,
              Invalidate (ptk_frame demo_console_print demo_plotman demo_cfg ''/'' ''/dst/x'' 0
                demo_jobs),
              AwaitSleep 1000]\<rparr>"
    using mp [OF inst [THEN conjunct2, THEN conjunct1] h'] k unfolding t' by simp
  have l: "tmp_layout (rich_frame demo_plotman demo_cfg ''/'' ''/dst/x'' 0 demo_jobs) =
       Tbl \<lparr>columns = [''tmp'', ''ready'', ''phases''],
            rows = [[PyStr ''a'', PyStr ''OK'', PyStr ''1:2 3:4''],
                    [PyStr ''b'', PyStr ''--'', PyStr ''2:1'']]\<rparr>"
    by code_simp
  have c: "refreshed (st_trace (final_state (with_rich 5 demo_world demo_plotman demo_cfg))) =
       [rich_blank,
        rich_frame demo_plotman demo_cfg ''/'' ''/dst/x'' 0 demo_jobs,
        rich_frame demo_plotman demo_cfg ''/'' ''/dst/x'' 1 demo_jobs,
        rich_frame demo_plotman demo_cfg ''/'' ''/dst/x'' 1 demo_jobs]"
    by code_simp
  have d: "invalidated (st_trace (final_state
         (with_prompt_toolkit 5 demo_console_print demo_world demo_plotman demo_cfg))) =
       [ptk_frame demo_console_print demo_plotman demo_cfg ''/'' ''/dst/x'' 0 demo_jobs,
        ptk_frame demo_console_print demo_plotman demo_cfg ''/'' ''/dst/x'' 1 demo_jobs]"
    by code_simp
  show ?thesis
    by (intro conjI a b l c d)
qed

section \<open>The tick of the polling backend\<close>

text \<open>
  C6. In a tick of the polling backend whose discovery call returns, the wait reads
  the keys in ten slices. When no slice sees a quit key, the tick reads ten times,
  sleeps 100 milliseconds after each read (one second in all) and the loop goes on
  with the next tick. When slice \<open>s\<close> is the first to see a quit key, the tick returns
  right after the read of that slice: \<open>s\<close> sleeps have been made, the remaining
  slices are not run, and the loop returns in that state, so that no further sampling
  or rendering step is made, however many ticks it could still run.
\<close>

theorem quit_checked_in_ten_slices:
  "(get_running_jobs w i (dirs_log (cfg_directories cfg)) (st_jobs st) = Inr js
      \<and> (\<forall>s<10. \<not> list_ex (\<lambda>k. k \<in> quit_keys) (read_keys w i s)) \<longrightarrow>
      rich_tick w pm cfg tmp_prefix dst_prefix i st =
        Next \<lparr>st_jobs = js,
              st_screen = rich_frame pm cfg tmp_prefix dst_prefix i js,
              st_trace = st_trace st @
                [GetRunningJobs, Refresh (rich_frame pm cfg tmp_prefix dst_prefix i js)] @
                concat (replicate 10 [ReadKeys, Sleep 100])\<rparr>
      \<and> rich_loop (Suc fuel) w pm cfg tmp_prefix dst_prefix i st =
        rich_loop fuel w pm cfg tmp_prefix dst_prefix (Suc i)
          \<lparr>st_jobs = js,
           st_screen = rich_frame pm cfg tmp_prefix dst_prefix i js,
           st_trace = st_trace st @
             [GetRunningJobs, Refresh (rich_frame pm cfg tmp_prefix dst_prefix i js)] @
             concat (replicate 10 [ReadKeys, Sleep 100])\<rparr>)
   \<and> (get_running_jobs w i (dirs_log (cfg_directories cfg)) (st_jobs st) = Inr js
      \<and> s < 10 \<and> (\<forall>s'<s. \<not> list_ex (\<lambda>k. k \<in> quit_keys) (read_keys w i s'))
      \<and> list_ex (\<lambda>k. k \<in> quit_keys) (read_keys w i s) \<longrightarrow>
      rich_tick w pm cfg tmp_prefix dst_prefix i st =
        Return \<lparr>st_jobs = js,
                st_screen = rich_frame pm cfg tmp_prefix dst_prefix i js,
                st_trace = st_trace st @
                  [GetRunningJobs, Refresh (rich_frame pm cfg tmp_prefix dst_prefix i js)] @
                  concat (replicate s [ReadKeys, Sleep 100]) @ [ReadKeys]\<rparr>
      \<and> rich_loop (Suc fuel) w pm cfg tmp_prefix dst_prefix i st =
        Return \<lparr>st_jobs = js,
                st_screen = rich_frame pm cfg tmp_prefix dst_prefix i js,
                st_trace = st_trace st @
                  [GetRunningJobs, Refresh (rich_frame pm cfg tmp_prefix dst_prefix i js)] @
                  concat (replicate s [ReadKeys, Sleep 100]) @ [ReadKeys]\<rparr>)"
proof (intro conjI impI)
  let ?fr = "rich_frame pm cfg tmp_prefix dst_prefix i js"
  let ?st1 = "\<lparr>st_jobs = js, st_screen = ?fr,
               st_trace = st_trace st @ [GetRunningJobs, Refresh ?fr]\<rparr>"
  assume a: "get_running_jobs w i (dirs_log (cfg_directories cfg)) (st_jobs st) = Inr js
      \<and> (\<forall>s<10. \<not> list_ex (\<lambda>k. k \<in> quit_keys) (read_keys w i s))"
  then have sr: "rich_sample_render w pm cfg tmp_prefix dst_prefix i st = Next ?st1"
    by (simp add: rich_sample_render_ok)
  from a have "list_all (\<lambda>s. \<not> list_ex (\<lambda>k. k \<in> quit_keys) (read_keys w i s)) [0..<10]"
    by (simp add: list_all_iff)
  from rich_wait_no_quit [OF this, of ?st1]
  have wt: "rich_wait w i [0..<10] ?st1 =
      Next \<lparr>st_jobs = js, st_screen = ?fr,
            st_trace = st_trace st @ [GetRunningJobs, Refresh ?fr] @
              concat (replicate 10 [ReadKeys, Sleep 100])\<rparr>"
    by simp
  show t: "rich_tick w pm cfg tmp_prefix dst_prefix i st =
      Next \<lparr>st_jobs = js, st_screen = ?fr,
            st_trace = st_trace st @ [GetRunningJobs, Refresh ?fr] @
              concat (replicate 10 [ReadKeys, Sleep 100])\<rparr>"
    unfolding rich_tick_def sr using wt by simp
  show "rich_loop (Suc fuel) w pm cfg tmp_prefix dst_prefix i st =
      rich_loop fuel w pm cfg tmp_prefix dst_prefix (Suc i)
        \<lparr>st_jobs = js, st_screen = ?fr,
         st_trace = st_trace st @ [GetRunningJobs, Refresh ?fr] @
           concat (replicate 10 [ReadKeys, Sleep 100])\<rparr>"
    unfolding rich_loop.simps t by simp
next
  let ?fr = "rich_frame pm cfg tmp_prefix dst_prefix i js"
  let ?st1 = "\<lparr>st_jobs = js, st_screen = ?fr,
               st_trace = st_trace st @ [GetRunningJobs, Refresh ?fr]\<rparr>"
  assume a: "get_running_jobs w i (dirs_log (cfg_directories cfg)) (st_jobs st) = Inr js
      \<and> s < 10 \<and> (\<forall>s'<s. \<not> list_ex (\<lambda>k. k \<in> quit_keys) (read_keys w i s'))
      \<and> list_ex (\<lambda>k. k \<in> quit_keys) (read_keys w i s)"
  then have sr: "rich_sample_render w pm cfg tmp_prefix dst_prefix i st = Next ?st1"
    by (simp add: rich_sample_render_ok)
  from a have pre: "list_all (\<lambda>s. \<not> list_ex (\<lambda>k. k \<in> quit_keys) (read_keys w i s)) [0..<s]"
    by (simp add: list_all_iff)
  have split: "[0..<10] = [0..<s] @ s # [Suc s..<10]"
    using a by (simp add: range_split)
  from a have q: "list_ex (\<lambda>k. k \<in> quit_keys) (read_keys w i s)" by simp
  have "rich_wait w i ([0..<s] @ s # [Suc s..<10]) ?st1 =
      Return (?st1\<lparr>st_trace := st_trace ?st1 @
        concat (replicate (length [0..<s]) [ReadKeys, Sleep 100]) @ [ReadKeys]\<rparr>)"
    by (rule rich_wait_quit [OF pre q])
  then have wt: "rich_wait w i [0..<10] ?st1 =
      Return \<lparr>st_jobs = js, st_screen = ?fr,
              st_trace = st_trace st @ [GetRunningJobs, Refresh ?fr] @
                concat (replicate s [ReadKeys, Sleep 100]) @ [ReadKeys]\<rparr>"
    unfolding split [symmetric] by simp
  show t: "rich_tick w pm cfg tmp_prefix dst_prefix i st =
      Return \<lparr>st_jobs = js, st_screen = ?fr,
              st_trace = st_trace st @ [GetRunningJobs, Refresh ?fr] @
                concat (replicate s [ReadKeys, Sleep 100]) @ [ReadKeys]\<rparr>"
    unfolding rich_tick_def sr using wt by simp
  show "rich_loop (Suc fuel) w pm cfg tmp_prefix dst_prefix i st =
      Return \<lparr>st_jobs = js, st_screen = ?fr,
              st_trace = st_trace st @ [GetRunningJobs, Refresh ?fr] @
                concat (replicate s [ReadKeys, Sleep 100]) @ [ReadKeys]\<rparr>"
    unfolding rich_loop.simps t by simp
qed

theorem quit_checked_in_ten_slices_witness:
  "rich_tick demo_world demo_plotman demo_cfg ''/'' ''/dst/x'' 0 rich_init =
     Next \<lparr>st_jobs = demo_jobs,
           st_screen = rich_frame demo_plotman demo_cfg ''/'' ''/dst/x'' 0 demo_jobs,
           st_trace =
             [GetRunningJobs,
              Refresh (rich_frame demo_plotman demo_cfg ''/'' ''/dst/x'' 0 demo_jobs),
              ReadKeys, Sleep 100, ReadKeys, Sleep 100, ReadKeys, Sleep 100, ReadKeys, Sleep 100,
              ReadKeys, Sleep 100, ReadKeys, Sleep 100, ReadKeys, Sleep 100, ReadKeys, Sleep 100,
              ReadKeys, Sleep 100, ReadKeys, Sleep 100]\<rparr>
   \<and> rich_loop (Suc 2) demo_world demo_plotman demo_cfg ''/'' ''/dst/x'' 1 rich_init =
     Return \<lparr>st_jobs = demo_jobs,
             st_screen = rich_frame demo_plotman demo_cfg ''/'' ''/dst/x'' 1 demo_jobs,
             st_trace =
               [GetRunningJobs,
                Refresh (rich_frame demo_plotman demo_cfg ''/'' ''/dst/x'' 1 demo_jobs),
                ReadKeys, Sleep 100, ReadKeys, Sleep 100, ReadKeys, Sleep 100, ReadKeys]\<rparr>"
proof -
  have n0: "get_running_jobs demo_world 0 (dirs_log (cfg_directories demo_cfg))
        (st_jobs (rich_init :: (nat \<times> nat, rich_screen) dash)) = Inr demo_jobs
      \<and> (\<forall>s<10. \<not> list_ex (\<lambda>k. k \<in> quit_keys) (read_keys demo_world 0 s))"
    by (simp add: demo_world_def)
  have q1: "get_running_jobs demo_world 1 (dirs_log (cfg_directories demo_cfg))
        (st_jobs (rich_init :: (nat \<times> nat, rich_screen) dash)) = Inr demo_jobs
      \<and> (3::nat) < 10
      \<and> (\<forall>s'<3. \<not> list_ex (\<lambda>k. k \<in> quit_keys) (read_keys demo_world 1 s'))
      \<and> list_ex (\<lambda>k. k \<in> quit_keys) (read_keys demo_world 1 3)"
    by (simp add: demo_world_def quit_keys_def)
  have r3: "concat (replicate 3 [ReadKeys, Sleep 100]) @ [ReadKeys] =
      [ReadKeys, Sleep 100, ReadKeys, Sleep 100, ReadKeys, Sleep 100, ReadKeys :: rich_screen event]"
    by (simp add: numeral_3_eq_3)
  have r10: "concat (replicate 10 [ReadKeys, Sleep 100 :: rich_screen event]) =
      [ReadKeys, Sleep 100, ReadKeys, Sleep 100, ReadKeys, Sleep 100, ReadKeys, Sleep 100,
       ReadKeys, Sleep 100, ReadKeys, Sleep 100, ReadKeys, Sleep 100, ReadKeys, Sleep 100,
       ReadKeys, Sleep 100, ReadKeys, Sleep 100]"
    by code_simp
  have "rich_tick demo_world demo_plotman demo_cfg ''/'' ''/dst/x'' 0 rich_init =
     Next \<lparr>st_jobs = demo_jobs,
           st_screen = rich_frame demo_plotman demo_cfg ''/'' ''/dst/x'' 0 demo_jobs,
           st_trace = st_trace (rich_init :: (nat \<times> nat, rich_screen) dash) @
             [GetRunningJobs,
              Refresh (rich_frame demo_plotman demo_cfg ''/'' ''/dst/x'' 0 demo_jobs)] @
             concat (replicate 10 [ReadKeys, Sleep 100])\<rparr>"
    by (rule mp [OF quit_checked_in_ten_slices
        [where w = demo_world and i = 0 and st = rich_init and cfg = demo_cfg
           and js = demo_jobs and pm = demo_plotman and tmp_prefix = "''/''"
           and dst_prefix = "''/dst/x''", THEN conjunct1] n0, THEN conjunct1])
  then have a: "rich_tick demo_world demo_plotman demo_cfg ''/'' ''/dst/x'' 0 rich_init =
     Next \<lparr>st_jobs = demo_jobs,
           st_screen = rich_frame demo_plotman demo_cfg ''/'' ''/dst/x'' 0 demo_jobs,
           st_trace =
             [GetRunningJobs,
              Refresh (rich_frame demo_plotman demo_cfg ''/'' ''/dst/x'' 0 demo_jobs)] @
             concat (replicate 10 [ReadKeys, Sleep 100])\<rparr>"
    by simp
  have "rich_loop (Suc 2) demo_world demo_plotman demo_cfg ''/'' ''/dst/x'' 1 rich_init =
     Return \<lparr>st_jobs = demo_jobs,
             st_screen = rich_frame demo_plotman demo_cfg ''/'' ''/dst/x'' 1 demo_jobs,
             st_trace = st_trace (rich_init :: (nat \<times> nat, rich_screen) dash) @
               [GetRunningJobs,
                Refresh (rich_frame demo_plotman demo_cfg ''/'' ''/dst/x'' 1 demo_jobs)] @
               concat (replicate 3 [ReadKeys, Sleep 100]) @ [ReadKeys]\<rparr>"
    by (rule mp [OF quit_checked_in_ten_slices
        [where w = demo_world and i = 1 and s = 3 and st = rich_init and cfg = demo_cfg
           and js = demo_jobs and pm = demo_plotman and tmp_prefix = "''/''"
           and dst_prefix = "''/dst/x''" and fuel = 2, THEN conjunct2] q1, THEN conjunct2])
  then have b: "rich_loop (Suc 2) demo_world demo_plotman demo_cfg ''/'' ''/dst/x'' 1 rich_init =
     Return \<lparr>st_jobs = demo_jobs,
             st_screen = rich_frame demo_plotman demo_cfg ''/'' ''/dst/x'' 1 demo_jobs,
             st_trace =
               [GetRunningJobs,
                Refresh (rich_frame demo_plotman demo_cfg ''/'' ''/dst/x'' 1 demo_jobs)] @
               (concat (replicate 3 [ReadKeys, Sleep 100]) @ [ReadKeys])\<rparr>"
    by simp
  show ?thesis
    using a b unfolding r3 r10 by simp
qed

section \<open>The directory the policy is asked about\<close>

lemma from_tmp_cells:
  "astuple_TmpRow (from_tmp pm dir_cfg jobs sched_cfg tmp prefix) =
     [PyStr (abbr_path pm tmp prefix),
      PyStr (if phases_permit_new_job pm
                  (sorted_py (\<lambda>p. p) (job_phases_for_tmpdir pm tmp jobs))
                  (abbr_path pm tmp prefix) sched_cfg dir_cfg
             then ''OK'' else ''--''),
      PyStr (phases_str pm (sorted_py (\<lambda>p. p) (job_phases_for_tmpdir pm tmp jobs)) 5)]"
  by (simp add: from_tmp_def TmpRow_cls_def astuple_TmpRow_def Let_def)

lemma from_tmp_policy_local:
  "(\<forall>phs sc dc. policy phs (abbr_path pm tmp prefix) sc dc =
                 phases_permit_new_job pm phs (abbr_path pm tmp prefix) sc dc) \<Longrightarrow>
   from_tmp (pm\<lparr>phases_permit_new_job := policy\<rparr>) dir_cfg jobs sched_cfg tmp prefix =
   from_tmp pm dir_cfg jobs sched_cfg tmp prefix"
  by (simp add: from_tmp_def Let_def)

lemma tmp_layout_rich_frame:
  "tmp_layout (rich_frame pm cfg tp dp n js) =
     Tbl \<lparr>columns = TmpRow_field_names,
          rows = map (\<lambda>tmp. astuple_TmpRow
                   (from_tmp pm (cfg_directories cfg) js (cfg_scheduling cfg) tmp tp))
                   (sorted_py (\<lambda>p. p) (dirs_tmp (cfg_directories cfg)))\<rparr>"
  by (simp add: rich_frame_def build_tmp_table_def build_tmp_data_def comp_def)

lemma disks_buffer_ptk_frame:
  "disks_buffer (ptk_frame console_print pm cfg tp dp n js) =
     capture_rich console_print
       \<lparr>columns = TmpRow_field_names,
        rows = map (\<lambda>tmp. astuple_TmpRow
                 (from_tmp pm (cfg_directories cfg) js (cfg_scheduling cfg) tmp tp))
                 (sorted_py (\<lambda>p. p) (dirs_tmp (cfg_directories cfg)))\<rparr>"
  by (simp add: ptk_frame_def build_tmp_table_def build_tmp_data_def comp_def)

lemma with_rich_tmp_tables:
  "Refresh fr \<in> set (st_trace (final_state (with_rich fuel w pm cfg))) \<Longrightarrow>
   tmp_layout fr = Placeholder \<or>
   (\<exists>n. tmp_layout fr =
      Tbl \<lparr>columns = TmpRow_field_names,
           rows = map (\<lambda>tmp. astuple_TmpRow
                    (from_tmp pm (cfg_directories cfg)
                       (jobs_after w (dirs_log (cfg_directories cfg)) (Suc n))
                       (cfg_scheduling cfg) tmp
                       (commonpath pm (dirs_tmp (cfg_directories cfg)))))
                    (sorted_py (\<lambda>p. p) (dirs_tmp (cfg_directories cfg)))\<rparr>)"
proof -
  let ?log = "dirs_log (cfg_directories cfg)"
  let ?tp = "commonpath pm (dirs_tmp (cfg_directories cfg))"
  let ?dp = "commonpath pm (dirs_dst (cfg_directories cfg))"
  let ?F = "\<lambda>n. rich_frame pm cfg ?tp ?dp n (jobs_after w ?log (Suc n))"
  let ?R = "with_rich fuel w pm cfg"
  let ?T = "\<lambda>n. Tbl \<lparr>columns = TmpRow_field_names,
           rows = map (\<lambda>tmp. astuple_TmpRow
                    (from_tmp pm (cfg_directories cfg) (jobs_after w ?log (Suc n))
                       (cfg_scheduling cfg) tmp ?tp))
                    (sorted_py (\<lambda>p. p) (dirs_tmp (cfg_directories cfg)))\<rparr>"
  assume "Refresh fr \<in> set (st_trace (final_state ?R))"
  then have mem: "fr \<in> set (refreshed (st_trace (final_state ?R)))"
    by (simp add: set_refreshed)
  obtain m where fs: "refreshed (st_trace (final_state ?R)) =
         rich_blank # map ?F [0..<m] @
         (if finished ?R then [st_screen (final_state ?R)] else [])"
    and sn: "raised ?R = None \<longrightarrow>
            st_screen (final_state ?R) =
            (if m = 0 then rich_blank
             else rich_frame pm cfg ?tp ?dp (m - 1) (jobs_after w ?log m))"
    and se: "\<forall>e. raised ?R = Some e \<longrightarrow>
            get_running_jobs w m ?log (jobs_after w ?log m) = Inl e
            \<and> st_screen (final_state ?R) =
              (if m = 0 then rich_blank
               else rich_frame pm cfg ?tp ?dp (m - 1) (jobs_after w ?log m))
              \<lparr>header_layout := Text (str (PyInt (int m)))\<rparr>"
    using with_rich_frames [of fuel w pm cfg] by (elim exE conjE)
  have F: "tmp_layout (?F n) = ?T n" for n
    by (rule tmp_layout_rich_frame)
  have last: "tmp_layout (st_screen (final_state ?R)) = Placeholder \<or>
      (\<exists>n. tmp_layout (st_screen (final_state ?R)) = ?T n)"
  proof (cases "raised ?R")
    case None
    show ?thesis
    proof (cases "m = 0")
      case True
      with None sn show ?thesis by (simp add: rich_blank_def)
    next
      case False
      then have e: "Suc (m - 1) = m" by simp
      from None sn False have "st_screen (final_state ?R) =
          rich_frame pm cfg ?tp ?dp (m - 1) (jobs_after w ?log m)"
        by simp
      then have "tmp_layout (st_screen (final_state ?R)) = tmp_layout (?F (m - 1))"
        unfolding e by simp
      then have "tmp_layout (st_screen (final_state ?R)) = ?T (m - 1)"
        unfolding F .
      then show ?thesis by blast
    qed
  next
    case (Some e)
    show ?thesis
    proof (cases "m = 0")
      case True
      with Some se show ?thesis by (simp add: rich_blank_def)
    next
      case False
      then have e: "Suc (m - 1) = m" by simp
      from Some se False have "st_screen (final_state ?R) =
          (rich_frame pm cfg ?tp ?dp (m - 1) (jobs_after w ?log m))
          \<lparr>header_layout := Text (str (PyInt (int m)))\<rparr>"
        by simp
      then have "tmp_layout (st_screen (final_state ?R)) = tmp_layout (?F (m - 1))"
        unfolding e by simp
      then have "tmp_layout (st_screen (final_state ?R)) = ?T (m - 1)"
        unfolding F .
      then show ?thesis by blast
    qed
  qed
  from mem consider "fr = rich_blank" | n where "fr = ?F n"
    | "fr = st_screen (final_state ?R)"
    unfolding fs by (auto split: if_splits)
  then show ?thesis
  proof cases
    case 1
    then show ?thesis by (simp add: rich_blank_def)
  next
    case 2
    then show ?thesis using F [of n] by blast
  next
    case 3
    then show ?thesis using last by simp
  qed
qed

lemma with_prompt_toolkit_tmp_tables:
  "Invalidate fr \<in>
     set (st_trace (final_state (with_prompt_toolkit fuel console_print w pm cfg))) \<Longrightarrow>
   \<exists>n. disks_buffer fr =
      capture_rich console_print
        \<lparr>columns = TmpRow_field_names,
         rows = map (\<lambda>tmp. astuple_TmpRow
                  (from_tmp pm (cfg_directories cfg)
                     (jobs_after w (dirs_log (cfg_directories cfg)) (Suc n))
                     (cfg_scheduling cfg) tmp
                     (commonpath pm (dirs_tmp (cfg_directories cfg)))))
                  (sorted_py (\<lambda>p. p) (dirs_tmp (cfg_directories cfg)))\<rparr>"
proof -
  let ?log = "dirs_log (cfg_directories cfg)"
  let ?tp = "commonpath pm (dirs_tmp (cfg_directories cfg))"
  let ?dp = "commonpath pm (dirs_dst (cfg_directories cfg))"
  let ?G = "\<lambda>n. ptk_frame console_print pm cfg ?tp ?dp n (jobs_after w ?log (Suc n))"
  let ?R = "with_prompt_toolkit fuel console_print w pm cfg"
  assume "Invalidate fr \<in> set (st_trace (final_state ?R))"
  then have mem: "fr \<in> set (invalidated (st_trace (final_state ?R)))"
    by (simp add: set_invalidated)
  obtain m where "invalidated (st_trace (final_state ?R)) = map ?G [0..<m]"
    using with_prompt_toolkit_frames [of fuel console_print w pm cfg] by (elim exE conjE)
  with mem obtain n where "fr = ?G n"
    by auto
  then show ?thesis
    using disks_buffer_ptk_frame [of console_print pm cfg ?tp ?dp n "jobs_after w ?log (Suc n)"]
    by blast
qed

text \<open>
  C9. For every configured tmp directory, the directory the scheduling policy is
  called with is the abbreviated path \<^verbatim>\<open>abbr_path(tmp, prefix)\<close>, the string that
  the row stores in \<^verbatim>\<open>path\<close>, and not the configured path: the row is the same for
  any two policies that agree at the abbreviated path, so where the abbreviated path
  differs from the configured one, what the policy says of the configured path does
  not matter. In both backends the prefix is
  \<^verbatim>\<open>os.path.commonpath(cfg.directories.tmp)\<close>: every tmp table that a run of either
  backend draws has, for each configured tmp directory in sorted order, the row that
  \<^verbatim>\<open>from_tmp\<close> makes with that prefix from the job list of one tick.
\<close>

theorem policy_directory_is_abbreviated_path:
  "path (from_tmp pm dir_cfg jobs sched_cfg tmp prefix) = PyStr (abbr_path pm tmp prefix)
   \<and> astuple_TmpRow (from_tmp pm dir_cfg jobs sched_cfg tmp prefix) =
       [PyStr (abbr_path pm tmp prefix),
        PyStr (if phases_permit_new_job pm
                    (sorted_py (\<lambda>p. p) (job_phases_for_tmpdir pm tmp jobs))
                    (abbr_path pm tmp prefix) sched_cfg dir_cfg
               then ''OK'' else ''--''),
        PyStr (phases_str pm (sorted_py (\<lambda>p. p) (job_phases_for_tmpdir pm tmp jobs)) 5)]
   \<and> (\<forall>policy.
        (\<forall>phs sc dc. policy phs (abbr_path pm tmp prefix) sc dc =
                      phases_permit_new_job pm phs (abbr_path pm tmp prefix) sc dc) \<longrightarrow>
        from_tmp (pm\<lparr>phases_permit_new_job := policy\<rparr>) dir_cfg jobs sched_cfg tmp prefix =
        from_tmp pm dir_cfg jobs sched_cfg tmp prefix)
   \<and> (abbr_path pm tmp prefix \<noteq> tmp \<longrightarrow>
        (\<forall>b. from_tmp
               (pm\<lparr>phases_permit_new_job :=
                     (\<lambda>phs d sc dc. if d = tmp then b
                                     else phases_permit_new_job pm phs d sc dc)\<rparr>)
               dir_cfg jobs sched_cfg tmp prefix =
             from_tmp pm dir_cfg jobs sched_cfg tmp prefix))
   \<and> (\<forall>fr. Refresh fr \<in> set (st_trace (final_state (with_rich fuel w pm cfg))) \<longrightarrow>
        tmp_layout fr = Placeholder \<or>
        (\<exists>n. tmp_layout fr =
           Tbl \<lparr>columns = TmpRow_field_names,
                rows = map (\<lambda>tmp. astuple_TmpRow
                         (from_tmp pm (cfg_directories cfg)
                            (jobs_after w (dirs_log (cfg_directories cfg)) (Suc n))
                            (cfg_scheduling cfg) tmp
                            (commonpath pm (dirs_tmp (cfg_directories cfg)))))
                         (sorted_py (\<lambda>p. p) (dirs_tmp (cfg_directories cfg)))\<rparr>))
   \<and> (\<forall>fr. Invalidate fr \<in>
             set (st_trace (final_state
               (with_prompt_toolkit fuel console_print w pm cfg))) \<longrightarrow>
        (\<exists>n. disks_buffer fr =
           capture_rich console_print
             \<lparr>columns = TmpRow_field_names,
              rows = map (\<lambda>tmp. astuple_TmpRow
                       (from_tmp pm (cfg_directories cfg)
                          (jobs_after w (dirs_log (cfg_directories cfg)) (Suc n))
                          (cfg_scheduling cfg) tmp
                          (commonpath pm (dirs_tmp (cfg_directories cfg)))))
                       (sorted_py (\<lambda>p. p) (dirs_tmp (cfg_directories cfg)))\<rparr>))"
proof (intro conjI allI impI)
  show "path (from_tmp pm dir_cfg jobs sched_cfg tmp prefix) = PyStr (abbr_path pm tmp prefix)"
    by (simp add: from_tmp_def TmpRow_cls_def Let_def)
next
  show "astuple_TmpRow (from_tmp pm dir_cfg jobs sched_cfg tmp prefix) =
       [PyStr (abbr_path pm tmp prefix),
        PyStr (if phases_permit_new_job pm
                    (sorted_py (\<lambda>p. p) (job_phases_for_tmpdir pm tmp jobs))
                    (abbr_path pm tmp prefix) sched_cfg dir_cfg
               then ''OK'' else ''--''),
        PyStr (phases_str pm (sorted_py (\<lambda>p. p) (job_phases_for_tmpdir pm tmp jobs)) 5)]"
    by (rule from_tmp_cells)
next
  fix policy
  assume "\<forall>phs sc dc. policy phs (abbr_path pm tmp prefix) sc dc =
                      phases_permit_new_job pm phs (abbr_path pm tmp prefix) sc dc"
  then show "from_tmp (pm\<lparr>phases_permit_new_job := policy\<rparr>) dir_cfg jobs sched_cfg tmp prefix =
        from_tmp pm dir_cfg jobs sched_cfg tmp prefix"
    by (rule from_tmp_policy_local)
next
  fix b
  assume "abbr_path pm tmp prefix \<noteq> tmp"
  then have "\<forall>phs sc dc.
      (\<lambda>phs d sc dc. if d = tmp then b else phases_permit_new_job pm phs d sc dc)
        phs (abbr_path pm tmp prefix) sc dc =
      phases_permit_new_job pm phs (abbr_path pm tmp prefix) sc dc"
    by simp
  then show "from_tmp
               (pm\<lparr>phases_permit_new_job :=
                     (\<lambda>phs d sc dc. if d = tmp then b
                                     else phases_permit_new_job pm phs d sc dc)\<rparr>)
               dir_cfg jobs sched_cfg tmp prefix =
             from_tmp pm dir_cfg jobs sched_cfg tmp prefix"
    by (rule from_tmp_policy_local)
next
  fix fr
  assume "Refresh fr \<in> set (st_trace (final_state (with_rich fuel w pm cfg)))"
  then show "tmp_layout fr = Placeholder \<or>
        (\<exists>n. tmp_layout fr =
           Tbl \<lparr>columns = TmpRow_field_names,
                rows = map (\<lambda>tmp. astuple_TmpRow
                         (from_tmp pm (cfg_directories cfg)
                            (jobs_after w (dirs_log (cfg_directories cfg)) (Suc n))
                            (cfg_scheduling cfg) tmp
                            (commonpath pm (dirs_tmp (cfg_directories cfg)))))
                         (sorted_py (\<lambda>p. p) (dirs_tmp (cfg_directories cfg)))\<rparr>)"
    by (rule with_rich_tmp_tables)
next
  fix fr
  assume "Invalidate fr \<in>
      set (st_trace (final_state (with_prompt_toolkit fuel console_print w pm cfg)))"
  then show "\<exists>n. disks_buffer fr =
           capture_rich console_print
             \<lparr>columns = TmpRow_field_names,
              rows = map (\<lambda>tmp. astuple_TmpRow
                       (from_tmp pm (cfg_directories cfg)
                          (jobs_after w (dirs_log (cfg_directories cfg)) (Suc n))
                          (cfg_scheduling cfg) tmp
                          (commonpath pm (dirs_tmp (cfg_directories cfg)))))
                       (sorted_py (\<lambda>p. p) (dirs_tmp (cfg_directories cfg)))\<rparr>"
    by (rule with_prompt_toolkit_tmp_tables)
qed

theorem policy_directory_is_abbreviated_path_witness:
  "astuple_TmpRow (from_tmp demo_plotman demo_dirs demo_jobs 3 ''/a''
       (demo_commonpath [''/b'', ''/a''])) =
     [PyStr ''a'', PyStr ''OK'', PyStr ''1:2 3:4'']
   \<and> \<not> demo_phases_permit_new_job [(1, 2), (3, 4)] ''/a'' 3 demo_dirs
   \<and> from_tmp
       (demo_plotman\<lparr>phases_permit_new_job :=
          (\<lambda>phs d sc dc. if d = ''/a'' then True
                          else phases_permit_new_job demo_plotman phs d sc dc)\<rparr>)
       demo_dirs demo_jobs 3 ''/a'' ''/'' =
     from_tmp demo_plotman demo_dirs demo_jobs 3 ''/a'' ''/''
   \<and> Refresh (rich_frame demo_plotman demo_cfg ''/'' ''/dst/x'' 0 demo_jobs) \<in>
       set (st_trace (final_state (with_rich 1 demo_world demo_plotman demo_cfg)))
   \<and> tmp_layout (rich_frame demo_plotman demo_cfg ''/'' ''/dst/x'' 0 demo_jobs) =
       Tbl \<lparr>columns = [''tmp'', ''ready'', ''phases''],
            rows = [[PyStr ''a'', PyStr ''OK'', PyStr ''1:2 3:4''],
                    [PyStr ''b'', PyStr ''--'', PyStr ''2:1'']]\<rparr>
   \<and> (\<exists>n. tmp_layout (rich_frame demo_plotman demo_cfg ''/'' ''/dst/x'' 0 demo_jobs) =
          Tbl \<lparr>columns = TmpRow_field_names,
               rows = map (\<lambda>tmp. astuple_TmpRow
                        (from_tmp demo_plotman (cfg_directories demo_cfg)
                           (jobs_after demo_world (dirs_log (cfg_directories demo_cfg)) (Suc n))
                           (cfg_scheduling demo_cfg) tmp
                           (commonpath demo_plotman (dirs_tmp (cfg_directories demo_cfg)))))
                        (sorted_py (\<lambda>p. p) (dirs_tmp (cfg_directories demo_cfg)))\<rparr>)"
proof -
  have a: "abbr_path demo_plotman ''/a'' ''/'' = ''a''"
    by code_simp
  have ne: "abbr_path demo_plotman ''/a'' ''/'' \<noteq> ''/a''"
    unfolding a by simp
  have c: "demo_commonpath [''/b'', ''/a''] = ''/''"
    by code_simp
  have p: "phases_permit_new_job demo_plotman
          (sorted_py (\<lambda>p. p) (job_phases_for_tmpdir demo_plotman ''/a'' demo_jobs))
          (abbr_path demo_plotman ''/a'' ''/'') 3 demo_dirs"
    by code_simp
  have f: "phases_str demo_plotman
          (sorted_py (\<lambda>p. p) (job_phases_for_tmpdir demo_plotman ''/a'' demo_jobs)) 5 =
        ''1:2 3:4''"
    by code_simp
  have m: "Refresh (rich_frame demo_plotman demo_cfg ''/'' ''/dst/x'' 0 demo_jobs) \<in>
       set (st_trace (final_state (with_rich 1 demo_world demo_plotman demo_cfg)))"
    by code_simp
  have l: "tmp_layout (rich_frame demo_plotman demo_cfg ''/'' ''/dst/x'' 0 demo_jobs) =
       Tbl \<lparr>columns = [''tmp'', ''ready'', ''phases''],
            rows = [[PyStr ''a'', PyStr ''OK'', PyStr ''1:2 3:4''],
                    [PyStr ''b'', PyStr ''--'', PyStr ''2:1'']]\<rparr>"
    by code_simp
  note inst = policy_directory_is_abbreviated_path
    [where pm = demo_plotman and dir_cfg = demo_dirs and jobs = demo_jobs and sched_cfg = 3
       and tmp = "''/a''" and prefix = "''/''" and fuel = 1 and w = demo_world
       and cfg = demo_cfg and console_print = demo_console_print]
  have 1: "astuple_TmpRow (from_tmp demo_plotman demo_dirs demo_jobs 3 ''/a'' ''/'') =
     [PyStr ''a'', PyStr ''OK'', PyStr ''1:2 3:4'']"
    using inst [THEN conjunct2, THEN conjunct1] p unfolding a f by simp
  have 2: "\<not> demo_phases_permit_new_job [(1, 2), (3, 4)] ''/a'' 3 demo_dirs"
    by code_simp
  have 3: "from_tmp
       (demo_plotman\<lparr>phases_permit_new_job :=
          (\<lambda>phs d sc dc. if d = ''/a'' then True
                          else phases_permit_new_job demo_plotman phs d sc dc)\<rparr>)
       demo_dirs demo_jobs 3 ''/a'' ''/'' =
     from_tmp demo_plotman demo_dirs demo_jobs 3 ''/a'' ''/''"
    by (rule mp [OF inst [THEN conjunct2, THEN conjunct2, THEN conjunct2, THEN conjunct1] ne,
          THEN spec])
  have "tmp_layout (rich_frame demo_plotman demo_cfg ''/'' ''/dst/x'' 0 demo_jobs) = Placeholder \<or>
      (\<exists>n. tmp_layout (rich_frame demo_plotman demo_cfg ''/'' ''/dst/x'' 0 demo_jobs) =
          Tbl \<lparr>columns = TmpRow_field_names,
               rows = map (\<lambda>tmp. astuple_TmpRow
                        (from_tmp demo_plotman (cfg_directories demo_cfg)
                           (jobs_after demo_world (dirs_log (cfg_directories demo_cfg)) (Suc n))
                           (cfg_scheduling demo_cfg) tmp
                           (commonpath demo_plotman (dirs_tmp (cfg_directories demo_cfg)))))
                        (sorted_py (\<lambda>p. p) (dirs_tmp (cfg_directories demo_cfg)))\<rparr>)"
    by (rule mp [OF inst [THEN conjunct2, THEN conjunct2, THEN conjunct2, THEN conjunct2,
            THEN conjunct1, THEN spec] m])
  then have 4: "\<exists>n. tmp_layout (rich_frame demo_plotman demo_cfg ''/'' ''/dst/x'' 0 demo_jobs) =
          Tbl \<lparr>columns = TmpRow_field_names,
               rows = map (\<lambda>tmp. astuple_TmpRow
                        (from_tmp demo_plotman (cfg_directories demo_cfg)
                           (jobs_after demo_world (dirs_log (cfg_directories demo_cfg)) (Suc n))
                           (cfg_scheduling demo_cfg) tmp
                           (commonpath demo_plotman (dirs_tmp (cfg_directories demo_cfg)))))
                        (sorted_py (\<lambda>p. p) (dirs_tmp (cfg_directories demo_cfg)))\<rparr>"
    unfolding l by simp
  show ?thesis
    unfolding c using 1 2 3 m l 4 by (intro conjI)
qed

end
